theory Spec2Isabelle
  imports Complex_Main
begin

section \<open>Numeric model of the C arithmetic\<close>

text \<open>
  The two extension modules \<^verbatim>\<open>cs_module.c\<close> and \<^verbatim>\<open>spam_module.c\<close> compute with C
  \<^verbatim>\<open>double\<close> and \<^verbatim>\<open>int\<close>. In this development a \<^verbatim>\<open>double\<close> is a \<^typ>\<open>real\<close>: every
  operation is exact, there is no rounding, no overflow to infinity, no underflow to zero and
  no NaN. Integer variables (\<^verbatim>\<open>int\<close>, \<^verbatim>\<open>npy_intp\<close>, \<^verbatim>\<open>Py_ssize_t\<close>) are \<^typ>\<open>int\<close>; the one
  place where a \<^verbatim>\<open>double\<close> is converted to \<^verbatim>\<open>int\<close> is modelled with its range check.
  Comparisons are exact too: a cell whose exact distance is within a rounding error of a
  cutoff may fall on the other side of it in the C program. Division by zero is \<open>0\<close> in HOL and infinity or NaN in C: where a divisor is zero (a zero
  wind speed, a zero resolution), a statement below about a computed value is a statement
  about the model only.
\<close>

definition M_PI :: real where
  \<comment> \<open>\<^verbatim>\<open>#define M_PI 3.14159265358979323846\<close>: the \<^verbatim>\<open>double\<close> nearest to \<open>\<pi>\<close>.\<close>
  "M_PI = pi"

definition pow :: "real \<Rightarrow> real \<Rightarrow> real" where
  \<comment> \<open>\<^verbatim>\<open>pow\<close> of \<^verbatim>\<open>math.h\<close>: an integral exponent is repeated multiplication (any base),
      any other exponent is \<open>exp (e * ln b)\<close> (C: a domain error for a negative base).\<close>
  "pow b e = (if e = of_int \<lfloor>e\<rfloor> then b powi \<lfloor>e\<rfloor> else b powr e)"

definition atan2 :: "real \<Rightarrow> real \<Rightarrow> real" where
  \<comment> \<open>\<^verbatim>\<open>atan2(y, x)\<close> of \<^verbatim>\<open>math.h\<close>: the angle of the point \<open>(x, y)\<close>, in \<open>[-\<pi>, \<pi>]\<close>.\<close>
  "atan2 y x =
     (if 0 < x then arctan (y / x)
      else if x < 0 then (if 0 \<le> y then arctan (y / x) + pi else arctan (y / x) - pi)
      else if 0 < y then pi / 2
      else if y < 0 then - (pi / 2)
      else 0)"

definition int_of_double :: "real \<Rightarrow> int option" where
  \<comment> \<open>The cast \<^verbatim>\<open>(int)d\<close>: truncation toward zero; undefined behaviour (\<open>None\<close>) when the
      truncated value is not representable in a 32-bit \<^verbatim>\<open>int\<close>.\<close>
  "int_of_double d =
     (let t = (if 0 \<le> d then \<lfloor>d\<rfloor> else \<lceil>d\<rceil>)
      in if - (2 ^ 31) \<le> t \<and> t \<le> 2 ^ 31 - 1 then Some t else None)"

section \<open>Python objects and the grid\<close>

text \<open>
  The grid is a NumPy array: a descriptor (element type, dimensions, strides in bytes) and a
  data pointer. The memory reachable from the data pointer is a store \<open>int \<Rightarrow> real\<close>,
  indexed in units of \<^verbatim>\<open>sizeof(double)\<close> relative to \<^verbatim>\<open>PyArray_DATA(grid)\<close>. Both modules
  update it in place; the model passes the store in and returns the updated one, also when
  the call fails. The code divides the byte strides by \<^verbatim>\<open>sizeof(double)\<close>; the statements
  below are about arrays whose strides are non-negative multiples of 8.

  The two functions \<^verbatim>\<open>update_pollution\<close> parse sixteen arguments into sixteen variables
  and are modelled from the values of these variables on. The parse of
  \<^verbatim>\<open>update_pollution_multiple\<close> does not set all its variables and is part of the model.
\<close>

datatype npy_type = NPY_DOUBLE | NPY_OTHER

record ndarray =
  PyArray_TYPE :: npy_type
  PyArray_DIMS :: "int list"
  PyArray_STRIDES :: "int list"

definition PyArray_NDIM :: "ndarray \<Rightarrow> nat" where
  "PyArray_NDIM a = length (PyArray_DIMS a)"

definition PyArray_SIZE :: "ndarray \<Rightarrow> int" where
  "PyArray_SIZE a = prod_list (PyArray_DIMS a)"

definition PyArray_STRIDE :: "ndarray \<Rightarrow> nat \<Rightarrow> int" where
  "PyArray_STRIDE a k = PyArray_STRIDES a ! k"

datatype grid_object = PyOther | PyArray ndarray

datatype py_exception = TypeError | IndexError | ValueError | OverflowError | SystemError

text \<open>
  What the caller of a function sees. \<open>NULL e\<close> is a call that raises \<open>e\<close>: the function
  returned \<^verbatim>\<open>NULL\<close> with \<open>e\<close> set, or, for \<open>SystemError\<close>, it returned \<^verbatim>\<open>None\<close> while the
  error indicator was still set, which the interpreter turns into \<open>SystemError\<close>.
\<close>

datatype py_return =
    Py_None                  \<comment> \<open>\<^verbatim>\<open>Py_RETURN_NONE\<close> with no error pending\<close>
  | NULL py_exception        \<comment> \<open>the call raises\<close>
  | Undefined                \<comment> \<open>a \<^verbatim>\<open>double\<close> to \<^verbatim>\<open>int\<close> cast out of range\<close>

datatype pyobj = PyFloat real | PyNonNumber

datatype vehicle_object = PyTuple "pyobj list" | PyNonTuple

datatype list_object = PyList "vehicle_object list" | PyNonList

definition PyTuple_Check :: "vehicle_object \<Rightarrow> bool" where
  "PyTuple_Check ob = (case ob of PyTuple items \<Rightarrow> True | PyNonTuple \<Rightarrow> False)"

definition PyTuple_Size :: "vehicle_object \<Rightarrow> int" where
  \<comment> \<open>\<open>-1\<close> (and an error) on an object that is not a tuple; the caller checks first.\<close>
  "PyTuple_Size ob = (case ob of PyTuple items \<Rightarrow> int (length items) | PyNonTuple \<Rightarrow> - 1)"

definition PyTuple_GetItem :: "vehicle_object \<Rightarrow> nat \<Rightarrow> pyobj" where
  \<comment> \<open>Called only on tuples of three items, with positions 0, 1 and 2.\<close>
  "PyTuple_GetItem ob k =
     (case ob of PyTuple items \<Rightarrow> if k < length items then items ! k else PyNonNumber
      | PyNonTuple \<Rightarrow> PyNonNumber)"

definition PyFloat_AsDouble :: "pyobj \<Rightarrow> real \<times> bool" where
  \<comment> \<open>The value returned, and whether the call sets the error indicator: on an object that
      is not a number the C API returns \<open>-1.0\<close> and sets \<^verbatim>\<open>TypeError\<close>.\<close>
  "PyFloat_AsDouble ob = (case ob of PyFloat r \<Rightarrow> (r, False) | PyNonNumber \<Rightarrow> (- 1, True))"

text \<open>
  The arguments of a call, and the conversions of \<^verbatim>\<open>PyArg_ParseTuple\<close> that
  \<^verbatim>\<open>update_pollution_multiple\<close> asks for: \<^verbatim>\<open>O\<close> takes any object, \<^verbatim>\<open>d\<close> a number,
  \<^verbatim>\<open>s\<close> a string, \<^verbatim>\<open>i\<close> an integer that fits a C \<^verbatim>\<open>int\<close>.
\<close>

datatype py_argument =
    Grid_arg grid_object
  | List_arg list_object
  | Float_arg real
  | Long_arg int
  | Str_arg string

definition format_O_grid :: "py_argument \<Rightarrow> grid_object" where
  "format_O_grid ob = (case ob of Grid_arg g \<Rightarrow> g | _ \<Rightarrow> PyOther)"

definition format_O_list :: "py_argument \<Rightarrow> list_object" where
  "format_O_list ob = (case ob of List_arg l \<Rightarrow> l | _ \<Rightarrow> PyNonList)"

definition format_d :: "py_argument \<Rightarrow> py_exception + real" where
  "format_d ob =
     (case ob of Float_arg r \<Rightarrow> Inr r | Long_arg n \<Rightarrow> Inr (of_int n) | _ \<Rightarrow> Inl TypeError)"

definition format_s :: "py_argument \<Rightarrow> py_exception + string" where
  "format_s ob = (case ob of Str_arg s \<Rightarrow> Inr s | _ \<Rightarrow> Inl TypeError)"

definition format_i :: "py_argument \<Rightarrow> py_exception + int" where
  "format_i ob =
     (case ob of
        Long_arg n \<Rightarrow> if - (2 ^ 31) \<le> n \<and> n \<le> 2 ^ 31 - 1 then Inr n else Inl OverflowError
      | _ \<Rightarrow> Inl TypeError)"

section \<open>Loops\<close>

text \<open>\<^verbatim>\<open>for (int i = lo; i < hi; i++) body(i)\<close> over a state.\<close>

function for_range :: "int \<Rightarrow> int \<Rightarrow> (int \<Rightarrow> 's \<Rightarrow> 's) \<Rightarrow> 's \<Rightarrow> 's" where
  "for_range i hi body s = (if i < hi then for_range (i + 1) hi body (body i s) else s)"
  by pat_completeness auto
termination
  by (relation "measure (\<lambda>(i, hi, body, s). nat (hi - i))") auto

declare for_range.simps [simp del]

definition add_at :: "int \<Rightarrow> real option \<Rightarrow> (int \<Rightarrow> real) \<Rightarrow> (int \<Rightarrow> real)" where
  \<comment> \<open>The end of a loop body: \<^verbatim>\<open>continue\<close> (\<open>None\<close>) or \<^verbatim>\<open>data[k] += concentration\<close>.\<close>
  "add_at k c data = (case c of None \<Rightarrow> data | Some v \<Rightarrow> data(k := data k + v))"

section \<open>cs\_module.c\<close>

definition calculate_dispersion_coefficients :: "string \<Rightarrow> real \<Rightarrow> real \<times> real" where
  "calculate_dispersion_coefficients stability_class distance =
     (let (a, b) =
        (if stability_class = ''A'' then (0.22, 0.20)
         else if stability_class = ''B'' then (0.16, 0.12)
         else if stability_class = ''C'' then (0.11, 0.08)
         else if stability_class = ''D'' then (0.08, 0.06)
         else if stability_class = ''E'' then (0.06, 0.03)
         else if stability_class = ''F'' then (0.04, 0.016)
         else (0.10, 0.05))
      in (a * distance * pow (1 + 0.0001 * distance) (- 0.5),
          b * distance * pow (1 + 0.0001 * distance) (- 0.5)))"

definition calculate_emission_rate :: "real \<Rightarrow> real \<Rightarrow> real" where
  "calculate_emission_rate vehicle_speed emission_factor =
     (let base_emission = 0.1;
          speed_factor = (if vehicle_speed > 20 then 1 + 0.05 * (vehicle_speed - 20) else 1)
      in base_emission * speed_factor * emission_factor)"

definition calculate_plume_rise :: "real \<Rightarrow> real" where
  "calculate_plume_rise vehicle_speed =
     (if vehicle_speed * 0.15 + 0.5 > 2 then vehicle_speed * 0.15 + 0.5 else 2)"

definition angle_diff :: "real \<Rightarrow> real \<Rightarrow> real \<Rightarrow> real" where
  \<comment> \<open>The three statements from \<^verbatim>\<open>atan2\<close> to the wrap-around, the same in all three loops.\<close>
  "angle_diff dy dx wind_direction =
     (let wind_dir_to_rec = atan2 dy dx;
          angle_diff = \<bar>wind_dir_to_rec - wind_direction\<bar>
      in if angle_diff > M_PI then 2 * M_PI - angle_diff else angle_diff)"

definition cs_cell ::
  "real \<Rightarrow> real \<Rightarrow> real \<Rightarrow> real \<Rightarrow> real \<Rightarrow> real \<Rightarrow> real \<Rightarrow> real \<Rightarrow> real \<Rightarrow> real \<Rightarrow> int \<Rightarrow>
   int \<Rightarrow> int \<Rightarrow> real option" where
  \<comment> \<open>The body of the inner loop of \<^verbatim>\<open>update_pollution\<close> for the cell \<open>(i, j)\<close>.\<close>
  "cs_cell x y emission_rate plume_height wind_speed wind_direction
       x_min x_max y_min y_max grid_resolution i j =
     (let cell_width = (x_max - x_min) / of_int grid_resolution;
          cell_height = (y_max - y_min) / of_int grid_resolution;
          two_pi = 2 * M_PI;
          emission_factor = emission_rate / (two_pi * wind_speed);
          receptor_x = x_min + (of_int j + 0.5) * cell_width;
          receptor_y = y_min + (of_int i + 0.5) * cell_height;
          dx = receptor_x - x;
          dy = receptor_y - y;
          distance_squared = dx * dx + dy * dy
      in if distance_squared < 1 then None
         else let distance = sqrt distance_squared
           in if distance > 300 then None
              else let distance_factor = pow (1 + 0.0001 * distance) (- 0.5);
                       sigma_y = 0.1 * distance * distance_factor;
                       sigma_z = 0.05 * distance * distance_factor;
                       lateral_dispersion =
                         exp (- 0.5 * pow (angle_diff dy dx wind_direction / sigma_y) 2);
                       vertical_dispersion = exp (- 0.5 * pow (plume_height / sigma_z) 2) * 2
                   in Some (emission_factor * lateral_dispersion * vertical_dispersion
                            / (sigma_y * sigma_z)))"

definition update_pollution ::
  "(int \<Rightarrow> real) \<Rightarrow> grid_object \<Rightarrow> int \<Rightarrow> int \<Rightarrow> int \<Rightarrow> int \<Rightarrow> real \<Rightarrow> real \<Rightarrow> real \<Rightarrow> real \<Rightarrow>
   real \<Rightarrow> real \<Rightarrow> real \<Rightarrow> real \<Rightarrow> real \<Rightarrow> real \<Rightarrow> int \<Rightarrow> py_return \<times> (int \<Rightarrow> real)" where
  "update_pollution data grid i_min i_max j_min j_max x y emission_rate plume_height
       wind_speed wind_direction x_min x_max y_min y_max grid_resolution =
     (case grid of
        PyOther \<Rightarrow> (NULL TypeError, data)
      | PyArray a \<Rightarrow>
          if PyArray_TYPE a \<noteq> NPY_DOUBLE \<or> PyArray_NDIM a \<noteq> 2 then (NULL TypeError, data)
          else let dims = PyArray_DIMS a
            in if i_min < 0 \<or> i_max > dims ! 0 \<or> j_min < 0 \<or> j_max > dims ! 1
               then (NULL IndexError, data)
               else let strides0 = PyArray_STRIDE a 0 div 8;
                        strides1 = PyArray_STRIDE a 1 div 8
                 in (Py_None,
                     for_range i_min i_max (\<lambda>i.
                       for_range j_min j_max (\<lambda>j.
                         add_at (i * strides0 + j * strides1)
                           (cs_cell x y emission_rate plume_height wind_speed wind_direction
                              x_min x_max y_min y_max grid_resolution i j))) data))"

definition multiple_cell ::
  "string \<Rightarrow> real \<Rightarrow> real \<Rightarrow> real \<Rightarrow> real \<Rightarrow> real \<Rightarrow> real \<Rightarrow> real \<Rightarrow> real \<Rightarrow> real \<Rightarrow> real \<Rightarrow> int \<Rightarrow>
   int \<Rightarrow> int \<Rightarrow> real option" where
  \<comment> \<open>The body of the innermost loop of \<^verbatim>\<open>update_pollution_multiple\<close>.\<close>
  "multiple_cell stability_class x y emission_rate plume_height wind_speed wind_direction
       x_min x_max y_min y_max grid_resolution i j =
     (let cell_width = (x_max - x_min) / of_int grid_resolution;
          cell_height = (y_max - y_min) / of_int grid_resolution;
          two_pi = 2 * M_PI;
          emission_factor_value = emission_rate / (two_pi * wind_speed);
          receptor_x = x_min + (of_int j + 0.5) * cell_width;
          receptor_y = y_min + (of_int i + 0.5) * cell_height;
          dx = receptor_x - x;
          dy = receptor_y - y;
          distance_squared = dx * dx + dy * dy
      in if distance_squared < 1 then None
         else let distance = sqrt distance_squared
           in if distance > 300 then None
              else let (sigma_y, sigma_z) =
                         calculate_dispersion_coefficients stability_class distance;
                       lateral_dispersion =
                         exp (- 0.5 * pow (angle_diff dy dx wind_direction / sigma_y) 2);
                       vertical_dispersion = exp (- 0.5 * pow (plume_height / sigma_z) 2) * 2
                   in Some (emission_factor_value * lateral_dispersion * vertical_dispersion
                            / (sigma_y * sigma_z)))"

definition window_i_min :: "real \<Rightarrow> real \<Rightarrow> real \<Rightarrow> int \<Rightarrow> int option" where
  "window_i_min y y_min y_max grid_resolution =
     int_of_double (max 0 ((y - y_min - 100) / (y_max - y_min) * of_int grid_resolution))"

definition window_i_max :: "int \<Rightarrow> real \<Rightarrow> real \<Rightarrow> real \<Rightarrow> int \<Rightarrow> int option" where
  "window_i_max dims0 y y_min y_max grid_resolution =
     int_of_double
       (min (of_int dims0) ((y - y_min + 100) / (y_max - y_min) * of_int grid_resolution))"

definition window_j_min :: "real \<Rightarrow> real \<Rightarrow> real \<Rightarrow> int \<Rightarrow> int option" where
  "window_j_min x x_min x_max grid_resolution =
     int_of_double (max 0 ((x - x_min - 100) / (x_max - x_min) * of_int grid_resolution))"

definition window_j_max :: "int \<Rightarrow> real \<Rightarrow> real \<Rightarrow> real \<Rightarrow> int \<Rightarrow> int option" where
  "window_j_max dims1 x x_min x_max grid_resolution =
     int_of_double
       (min (of_int dims1) ((x - x_min + 100) / (x_max - x_min) * of_int grid_resolution))"

definition vehicle_update ::
  "ndarray \<Rightarrow> real \<Rightarrow> real \<Rightarrow> real \<Rightarrow> string \<Rightarrow> real \<Rightarrow> real \<Rightarrow> real \<Rightarrow> real \<Rightarrow> int \<Rightarrow>
   vehicle_object \<Rightarrow> (int \<Rightarrow> real) \<Rightarrow> (int \<Rightarrow> real) option" where
  \<comment> \<open>One iteration of the loop over the vehicles, after the check of the tuple.\<close>
  "vehicle_update a wind_speed wind_direction emission_factor stability_class
       x_min x_max y_min y_max grid_resolution vehicle_tuple data =
     (let strides0 = PyArray_STRIDE a 0 div 8;
          strides1 = PyArray_STRIDE a 1 div 8;
          dims = PyArray_DIMS a;
          x = fst (PyFloat_AsDouble (PyTuple_GetItem vehicle_tuple 0));
          y = fst (PyFloat_AsDouble (PyTuple_GetItem vehicle_tuple 1));
          vehicle_speed = fst (PyFloat_AsDouble (PyTuple_GetItem vehicle_tuple 2));
          emission_rate = calculate_emission_rate vehicle_speed emission_factor;
          plume_height = calculate_plume_rise vehicle_speed
      in case (window_i_min y y_min y_max grid_resolution,
               window_i_max (dims ! 0) y y_min y_max grid_resolution,
               window_j_min x x_min x_max grid_resolution,
               window_j_max (dims ! 1) x x_min x_max grid_resolution) of
           (Some i_min, Some i_max, Some j_min, Some j_max) \<Rightarrow>
             Some (for_range i_min i_max (\<lambda>i.
                     for_range j_min j_max (\<lambda>j.
                       add_at (i * strides0 + j * strides1)
                         (multiple_cell stability_class x y emission_rate plume_height
                            wind_speed wind_direction x_min x_max y_min y_max
                            grid_resolution i j))) data)
         | _ \<Rightarrow> None)"

definition vehicle_error :: "vehicle_object \<Rightarrow> bool" where
  \<comment> \<open>One of the three calls of \<^verbatim>\<open>PyFloat_AsDouble\<close> for the vehicle sets the error
      indicator. The function never tests it.\<close>
  "vehicle_error vehicle_tuple =
     (snd (PyFloat_AsDouble (PyTuple_GetItem vehicle_tuple 0))
      \<or> snd (PyFloat_AsDouble (PyTuple_GetItem vehicle_tuple 1))
      \<or> snd (PyFloat_AsDouble (PyTuple_GetItem vehicle_tuple 2)))"

fun vehicles_loop ::
  "ndarray \<Rightarrow> real \<Rightarrow> real \<Rightarrow> real \<Rightarrow> string \<Rightarrow> real \<Rightarrow> real \<Rightarrow> real \<Rightarrow> real \<Rightarrow> int \<Rightarrow>
   vehicle_object list \<Rightarrow> (int \<Rightarrow> real) \<Rightarrow> bool \<Rightarrow> py_return \<times> (int \<Rightarrow> real)" where
  \<comment> \<open>The loop over the vehicles and the final \<^verbatim>\<open>Py_RETURN_NONE\<close>; \<open>err\<close> is the error
      indicator.\<close>
  "vehicles_loop a wind_speed wind_direction emission_factor stability_class
       x_min x_max y_min y_max grid_resolution [] data err =
     (if err then NULL SystemError else Py_None, data)"
| "vehicles_loop a wind_speed wind_direction emission_factor stability_class
       x_min x_max y_min y_max grid_resolution (vehicle_tuple # rest) data err =
     (if \<not> PyTuple_Check vehicle_tuple \<or> PyTuple_Size vehicle_tuple \<noteq> 3
      then (NULL ValueError, data)
      else (case vehicle_update a wind_speed wind_direction emission_factor
                   stability_class x_min x_max y_min y_max grid_resolution
                   vehicle_tuple data of
              None \<Rightarrow> (Undefined, data)
            | Some data' \<Rightarrow>
                vehicles_loop a wind_speed wind_direction emission_factor stability_class
                  x_min x_max y_min y_max grid_resolution rest data'
                  (err \<or> vehicle_error vehicle_tuple)))"

definition update_pollution_multiple_body ::
  "(int \<Rightarrow> real) \<Rightarrow> grid_object \<Rightarrow> list_object \<Rightarrow> real \<Rightarrow> real \<Rightarrow> real \<Rightarrow> string \<Rightarrow>
   real \<Rightarrow> real \<Rightarrow> real \<Rightarrow> real \<Rightarrow> int \<Rightarrow> py_return \<times> (int \<Rightarrow> real)" where
  \<comment> \<open>\<^verbatim>\<open>update_pollution_multiple\<close> from the validation of the grid to the end, for given
      values of its eleven variables.\<close>
  "update_pollution_multiple_body data grid vehicle_list wind_speed wind_direction
       emission_factor stability_class x_min x_max y_min y_max grid_resolution =
     (case grid of
        PyOther \<Rightarrow> (NULL TypeError, data)
      | PyArray a \<Rightarrow>
          if PyArray_TYPE a \<noteq> NPY_DOUBLE \<or> PyArray_NDIM a \<noteq> 2 then (NULL TypeError, data)
          else (case vehicle_list of
                  PyNonList \<Rightarrow> (NULL TypeError, data)
                | PyList vehicles \<Rightarrow>
                    vehicles_loop a wind_speed wind_direction emission_factor stability_class
                      x_min x_max y_min y_max grid_resolution vehicles
                      (for_range 0 (PyArray_SIZE a) (\<lambda>i d. d(i := d i * 0.99)) data) False))"

text \<open>
  The call \<^verbatim>\<open>PyArg_ParseTuple(args, "OOdddsdddi", &grid, &vehicle_list, &wind_speed,
  &wind_direction, &emission_factor, &stability_class, &x_min, &x_max, &y_min, &y_max,
  &grid_resolution)\<close> has ten conversions for eleven destinations. A call with any other
  number of arguments than ten raises \<^verbatim>\<open>TypeError\<close>, the documented call with eleven
  arguments included. In a call with ten arguments the tenth conversion, \<^verbatim>\<open>i\<close>, stores an
  \<^verbatim>\<open>int\<close> into the first bytes of the \<^verbatim>\<open>double\<close> \<^verbatim>\<open>y_max\<close>, and nothing is stored
  into \<^verbatim>\<open>grid_resolution\<close>: the values of these two variables are not the caller's.
\<close>

definition PyArg_ParseTuple ::
  "py_argument list \<Rightarrow>
   py_exception +
   grid_object \<times> list_object \<times> real \<times> real \<times> real \<times> string \<times> real \<times> real \<times> real \<times> int" where
  \<comment> \<open>The nine variables the call sets, and the \<^verbatim>\<open>int\<close> written over \<^verbatim>\<open>y_max\<close>.\<close>
  "PyArg_ParseTuple args =
     (if length args \<noteq> 10 then Inl TypeError
      else case format_d (args ! 2) of Inl e \<Rightarrow> Inl e | Inr wind_speed \<Rightarrow>
        (case format_d (args ! 3) of Inl e \<Rightarrow> Inl e | Inr wind_direction \<Rightarrow>
        (case format_d (args ! 4) of Inl e \<Rightarrow> Inl e | Inr emission_factor \<Rightarrow>
        (case format_s (args ! 5) of Inl e \<Rightarrow> Inl e | Inr stability_class \<Rightarrow>
        (case format_d (args ! 6) of Inl e \<Rightarrow> Inl e | Inr x_min \<Rightarrow>
        (case format_d (args ! 7) of Inl e \<Rightarrow> Inl e | Inr x_max \<Rightarrow>
        (case format_d (args ! 8) of Inl e \<Rightarrow> Inl e | Inr y_min \<Rightarrow>
        (case format_i (args ! 9) of Inl e \<Rightarrow> Inl e | Inr over_y_max \<Rightarrow>
           Inr (format_O_grid (args ! 0), format_O_list (args ! 1), wind_speed,
                wind_direction, emission_factor, stability_class, x_min, x_max, y_min,
                over_y_max)))))))))"

definition update_pollution_multiple ::
  "(int \<Rightarrow> real) \<Rightarrow> py_argument list \<Rightarrow> real \<Rightarrow> int \<Rightarrow> py_return \<times> (int \<Rightarrow> real)" where
  \<comment> \<open>The function as called with the tuple \<open>args\<close>. \<open>y_max\<close> and \<open>grid_resolution\<close> are
      the values the two variables hold after the parse, whatever they are: a general
      statement about the function holds for all of them. Where an example needs values,
      it takes \<open>10.0\<close> and \<open>1\<close>; the low-order word of the \<^verbatim>\<open>double\<close> \<open>10.0\<close> is \<open>0\<close>,
      the tenth argument of the example calls.\<close>
  "update_pollution_multiple data args y_max grid_resolution =
     (case PyArg_ParseTuple args of
        Inl e \<Rightarrow> (NULL e, data)
      | Inr (grid, vehicle_list, wind_speed, wind_direction, emission_factor,
             stability_class, x_min, x_max, y_min, over_y_max) \<Rightarrow>
          update_pollution_multiple_body data grid vehicle_list wind_speed wind_direction
            emission_factor stability_class x_min x_max y_min y_max grid_resolution)"

section \<open>spam\_module.c\<close>

definition spam_cell ::
  "real \<Rightarrow> real \<Rightarrow> real \<Rightarrow> real \<Rightarrow> real \<Rightarrow> real \<Rightarrow> real \<Rightarrow> real \<Rightarrow> real \<Rightarrow> real \<Rightarrow> int \<Rightarrow>
   int \<Rightarrow> int \<Rightarrow> real option" where
  \<comment> \<open>The body of the inner loop of \<^verbatim>\<open>update_pollution\<close> of \<^verbatim>\<open>spam_module.c\<close>.\<close>
  "spam_cell x y emission_rate plume_height wind_speed wind_direction
       x_min x_max y_min y_max grid_resolution i j =
     (let cell_width = (x_max - x_min) / of_int grid_resolution;
          cell_height = (y_max - y_min) / of_int grid_resolution;
          a = 0.10;
          b = 0.05;
          receptor_x = x_min + (of_int j + 0.5) * cell_width;
          receptor_y = y_min + (of_int i + 0.5) * cell_height;
          dx = receptor_x - x;
          dy = receptor_y - y;
          distance = sqrt (dx * dx + dy * dy)
      in if distance < 1 then None
         else let sigma_y = a * distance * pow (1 + 0.0001 * distance) (- 0.5);
                  sigma_z = b * distance * pow (1 + 0.0001 * distance) (- 0.5)
              in Some ((emission_rate / (2 * M_PI * wind_speed * sigma_y * sigma_z))
                       * exp (- 0.5 * pow (angle_diff dy dx wind_direction / sigma_y) 2)
                       * (exp (- 0.5 * pow (plume_height / sigma_z) 2)
                          + exp (- 0.5 * pow (plume_height / sigma_z) 2))))"

definition spam_update_pollution ::
  "(int \<Rightarrow> real) \<Rightarrow> int \<Rightarrow> int \<Rightarrow> int \<Rightarrow> int \<Rightarrow> real \<Rightarrow> real \<Rightarrow> real \<Rightarrow> real \<Rightarrow>
   real \<Rightarrow> real \<Rightarrow> real \<Rightarrow> real \<Rightarrow> real \<Rightarrow> real \<Rightarrow> int \<Rightarrow> py_return \<times> (int \<Rightarrow> real)" where
  \<comment> \<open>\<^verbatim>\<open>update_pollution\<close> of \<^verbatim>\<open>spam_module.c\<close>; the grid object is used for its data
      pointer only and is never validated.\<close>
  "spam_update_pollution data i_min i_max j_min j_max x y emission_rate plume_height
       wind_speed wind_direction x_min x_max y_min y_max grid_resolution =
     (Py_None,
      for_range i_min i_max (\<lambda>i.
        for_range j_min j_max (\<lambda>j.
          add_at (i * grid_resolution + j)
            (spam_cell x y emission_rate plume_height wind_speed wind_direction
               x_min x_max y_min y_max grid_resolution i j))) data)"

section \<open>Notions used in the statements\<close>

text \<open>
  The offset of the centre of cell \<open>(i, j)\<close> from the source and its length, as every
  loop body computes them (\<^verbatim>\<open>dx\<close>, \<^verbatim>\<open>dy\<close>, \<^verbatim>\<open>distance\<close>), and the increment a loop
  body stands for (\<open>0\<close> after \<^verbatim>\<open>continue\<close>).
\<close>

definition receptor_dx :: "real \<Rightarrow> real \<Rightarrow> real \<Rightarrow> int \<Rightarrow> int \<Rightarrow> real" where
  "receptor_dx x x_min x_max grid_resolution j =
     x_min + (of_int j + 0.5) * ((x_max - x_min) / of_int grid_resolution) - x"

definition receptor_dy :: "real \<Rightarrow> real \<Rightarrow> real \<Rightarrow> int \<Rightarrow> int \<Rightarrow> real" where
  "receptor_dy y y_min y_max grid_resolution i =
     y_min + (of_int i + 0.5) * ((y_max - y_min) / of_int grid_resolution) - y"

definition cell_distance ::
  "real \<Rightarrow> real \<Rightarrow> real \<Rightarrow> real \<Rightarrow> real \<Rightarrow> real \<Rightarrow> int \<Rightarrow> int \<Rightarrow> int \<Rightarrow> real" where
  "cell_distance x y x_min x_max y_min y_max grid_resolution i j =
     sqrt (receptor_dx x x_min x_max grid_resolution j
             * receptor_dx x x_min x_max grid_resolution j
           + receptor_dy y y_min y_max grid_resolution i
             * receptor_dy y y_min y_max grid_resolution i)"

definition cell_value :: "real option \<Rightarrow> real" where
  "cell_value c = (case c of None \<Rightarrow> 0 | Some v \<Rightarrow> v)"

definition zeros :: "int \<Rightarrow> real" where
  \<comment> \<open>Memory holding \<open>0.0\<close> everywhere.\<close>
  "zeros k = 0"

definition ones :: "int \<Rightarrow> real" where
  \<comment> \<open>Memory holding \<open>1.0\<close> everywhere.\<close>
  "ones k = 1"

definition unit_array :: ndarray where
  \<comment> \<open>A C-contiguous array of one row and one column, as \<^verbatim>\<open>numpy.zeros((1, 1))\<close> is.\<close>
  "unit_array =
     \<lparr>PyArray_TYPE = NPY_DOUBLE, PyArray_DIMS = [1, 1], PyArray_STRIDES = [8, 8]\<rparr>"

definition unit_grid :: grid_object where
  "unit_grid = PyArray unit_array"

definition strided_view :: grid_object where
  \<comment> \<open>Every second column of a C-contiguous array of two rows and four columns, as
      \<^verbatim>\<open>numpy.ones((2, 4))[:, ::2]\<close> is: two rows, two columns, strides of 32 and 16 bytes.\<close>
  "strided_view =
     PyArray \<lparr>PyArray_TYPE = NPY_DOUBLE, PyArray_DIMS = [2, 2], PyArray_STRIDES = [32, 16]\<rparr>"

definition in_window ::
  "int \<Rightarrow> int \<Rightarrow> real \<Rightarrow> real \<Rightarrow> real \<Rightarrow> real \<Rightarrow> int \<Rightarrow> vehicle_object \<Rightarrow> int \<Rightarrow> int \<Rightarrow> bool" where
  \<comment> \<open>Cell \<open>(i, j)\<close> is one the loops of \<^verbatim>\<open>update_pollution_multiple\<close> visit for the vehicle.\<close>
  "in_window dims0 dims1 x_min x_max y_min y_max grid_resolution vehicle_tuple i j =
     (let x = fst (PyFloat_AsDouble (PyTuple_GetItem vehicle_tuple 0));
          y = fst (PyFloat_AsDouble (PyTuple_GetItem vehicle_tuple 1))
      in case (window_i_min y y_min y_max grid_resolution,
               window_i_max dims0 y y_min y_max grid_resolution,
               window_j_min x x_min x_max grid_resolution,
               window_j_max dims1 x x_min x_max grid_resolution) of
           (Some i_min, Some i_max, Some j_min, Some j_max) \<Rightarrow>
             i_min \<le> i \<and> i < i_max \<and> j_min \<le> j \<and> j < j_max
         | _ \<Rightarrow> False)"


definition ten_arguments :: "grid_object \<Rightarrow> vehicle_object list \<Rightarrow> real \<Rightarrow> py_argument list" where
  \<comment> \<open>The call \<^verbatim>\<open>update_pollution_multiple(grid, vehicles, wind_speed, 0.0, 1.0, "D", 0.0,
      10.0, 0.0, 0)\<close>: ten arguments, as the format string takes.\<close>
  "ten_arguments grid vehicles wind_speed =
     [Grid_arg grid, List_arg (PyList vehicles), Float_arg wind_speed, Float_arg 0, Float_arg 1,
      Str_arg ''D'', Float_arg 0, Float_arg 10, Float_arg 0, Long_arg 0]"






section \<open>Basic facts\<close>

lemma zeros_apply [simp]: "zeros k = 0"
  by (simp add: zeros_def)

lemma ones_apply [simp]: "ones k = 1"
  by (simp add: ones_def)

lemma pow_2 [simp]: "pow b 2 = b\<^sup>2"
  by (simp add: pow_def)

lemma pow_neg_half [simp]: "pow b (- (1 / 2)) = b powr (- (1 / 2))"
  by (simp add: pow_def)


subsection \<open>Loops as folds, and what a window of additions leaves in the store\<close>

lemma for_range_fold: "for_range lo hi body s = fold body [lo..hi - 1] s"
proof (induction lo hi body s rule: for_range.induct)
  case (1 i hi body s)
  show ?case
  proof (cases "i < hi")
    case True
    then have "[i..hi - 1] = i # [i + 1..hi - 1]"
      by (simp add: upto_rec1)
    with True 1 show ?thesis
      by (simp add: for_range.simps [of i])
  next
    case False
    then show ?thesis
      by (simp add: for_range.simps [of i])
  qed
qed

lemma for_range_fold_ext: "for_range lo hi body = fold body [lo..hi - 1]"
  by (rule ext) (rule for_range_fold)



lemma fold_add_at:
  "fold (\<lambda>j. add_at (addr j) (cell j)) js data k =
     data k + (\<Sum>j\<leftarrow>js. if addr j = k then cell_value (cell j) else 0)"
  by (induction js arbitrary: data) (auto simp: add_at_def cell_value_def split: option.splits)

lemma fold_fold_add_at:
  "fold (\<lambda>i. fold (\<lambda>j. add_at (addr i j) (cell i j)) js) is data k =
     data k + (\<Sum>i\<leftarrow>is. \<Sum>j\<leftarrow>js. if addr i j = k then cell_value (cell i j) else 0)"
  by (induction "is" arbitrary: data) (simp_all add: fold_add_at)

lemma window_sum:
  "for_range i_min i_max (\<lambda>i. for_range j_min j_max (\<lambda>j. add_at (addr i j) (cell i j))) data k =
     data k + (\<Sum>i = i_min..i_max - 1. \<Sum>j = j_min..j_max - 1.
                 if addr i j = k then cell_value (cell i j) else 0)"
proof -
  have "for_range i_min i_max (\<lambda>i. for_range j_min j_max (\<lambda>j. add_at (addr i j) (cell i j)))
          data k
      = fold (\<lambda>i. fold (\<lambda>j. add_at (addr i j) (cell i j)) [j_min..j_max - 1])
          [i_min..i_max - 1] data k"
    by (simp add: for_range_fold_ext)
  also have "\<dots> = data k + (\<Sum>i\<leftarrow>[i_min..i_max - 1]. \<Sum>j\<leftarrow>[j_min..j_max - 1].
                 if addr i j = k then cell_value (cell i j) else 0)"
    by (rule fold_fold_add_at)
  also have "\<dots> = data k + (\<Sum>i = i_min..i_max - 1. \<Sum>j = j_min..j_max - 1.
                 if addr i j = k then cell_value (cell i j) else 0)"
    by (simp add: sum_list_distinct_conv_sum_set)
  finally show ?thesis .
qed

lemma window_sum_unchanged:
  assumes "\<And>i j. i_min \<le> i \<Longrightarrow> i < i_max \<Longrightarrow> j_min \<le> j \<Longrightarrow> j < j_max \<Longrightarrow> addr i j \<noteq> k"
  shows "for_range i_min i_max (\<lambda>i. for_range j_min j_max (\<lambda>j. add_at (addr i j) (cell i j)))
           data k = data k"
proof -
  have "(\<Sum>i = i_min..i_max - 1. \<Sum>j = j_min..j_max - 1.
           if addr i j = k then cell_value (cell i j) else 0) = 0"
    using assms by (intro sum.neutral ballI) auto
  then show ?thesis
    by (simp only: window_sum)
qed


subsection \<open>The three loop bodies in terms of the distance of the cell\<close>

lemma cs_cell_unfold:
  "cs_cell x y emission_rate plume_height wind_speed wind_direction
       x_min x_max y_min y_max grid_resolution i j =
   (let dx = receptor_dx x x_min x_max grid_resolution j;
        dy = receptor_dy y y_min y_max grid_resolution i;
        distance = cell_distance x y x_min x_max y_min y_max grid_resolution i j;
        sigma_y = 0.1 * distance * pow (1 + 0.0001 * distance) (- 0.5);
        sigma_z = 0.05 * distance * pow (1 + 0.0001 * distance) (- 0.5)
    in if distance < 1 then None
       else if distance > 300 then None
       else Some (emission_rate / (2 * M_PI * wind_speed)
                  * exp (- 0.5 * pow (angle_diff dy dx wind_direction / sigma_y) 2)
                  * (exp (- 0.5 * pow (plume_height / sigma_z) 2) * 2)
                  / (sigma_y * sigma_z)))"
  unfolding cs_cell_def Let_def receptor_dx_def receptor_dy_def cell_distance_def
    real_sqrt_lt_1_iff ..

lemma spam_cell_unfold:
  "spam_cell x y emission_rate plume_height wind_speed wind_direction
       x_min x_max y_min y_max grid_resolution i j =
   (let dx = receptor_dx x x_min x_max grid_resolution j;
        dy = receptor_dy y y_min y_max grid_resolution i;
        distance = cell_distance x y x_min x_max y_min y_max grid_resolution i j;
        sigma_y = 0.10 * distance * pow (1 + 0.0001 * distance) (- 0.5);
        sigma_z = 0.05 * distance * pow (1 + 0.0001 * distance) (- 0.5)
    in if distance < 1 then None
       else Some ((emission_rate / (2 * M_PI * wind_speed * sigma_y * sigma_z))
                  * exp (- 0.5 * pow (angle_diff dy dx wind_direction / sigma_y) 2)
                  * (exp (- 0.5 * pow (plume_height / sigma_z) 2)
                     + exp (- 0.5 * pow (plume_height / sigma_z) 2))))"
  unfolding spam_cell_def Let_def receptor_dx_def receptor_dy_def cell_distance_def ..

lemma multiple_cell_unfold:
  "multiple_cell stability_class x y emission_rate plume_height wind_speed wind_direction
       x_min x_max y_min y_max grid_resolution i j =
   (let dx = receptor_dx x x_min x_max grid_resolution j;
        dy = receptor_dy y y_min y_max grid_resolution i;
        distance = cell_distance x y x_min x_max y_min y_max grid_resolution i j
    in if distance < 1 then None
       else if distance > 300 then None
       else let (sigma_y, sigma_z) = calculate_dispersion_coefficients stability_class distance
            in Some (emission_rate / (2 * M_PI * wind_speed)
                     * exp (- 0.5 * pow (angle_diff dy dx wind_direction / sigma_y) 2)
                     * (exp (- 0.5 * pow (plume_height / sigma_z) 2) * 2)
                     / (sigma_y * sigma_z)))"
  unfolding multiple_cell_def Let_def receptor_dx_def receptor_dy_def cell_distance_def
    real_sqrt_lt_1_iff ..

lemma cs_cell_None_iff:
  "cs_cell x y emission_rate plume_height wind_speed wind_direction
       x_min x_max y_min y_max grid_resolution i j = None \<longleftrightarrow>
   cell_distance x y x_min x_max y_min y_max grid_resolution i j < 1 \<or>
   300 < cell_distance x y x_min x_max y_min y_max grid_resolution i j"
  by (auto simp add: cs_cell_unfold Let_def)


lemma multiple_cell_fallback:
  assumes "stability_class \<notin> {''A'', ''B'', ''C'', ''D'', ''E'', ''F''}"
  shows "multiple_cell stability_class x y emission_rate plume_height wind_speed wind_direction
           x_min x_max y_min y_max grid_resolution i j =
         cs_cell x y emission_rate plume_height wind_speed wind_direction
           x_min x_max y_min y_max grid_resolution i j"
  using assms
  by (simp add: multiple_cell_def cs_cell_def calculate_dispersion_coefficients_def Let_def)

subsection \<open>What a single-source call leaves in one cell\<close>

lemma sum_single_cell:
  fixes f :: "int \<Rightarrow> int \<Rightarrow> real"
  assumes "\<And>i j. i_min \<le> i \<Longrightarrow> i < i_max \<Longrightarrow> j_min \<le> j \<Longrightarrow> j < j_max \<Longrightarrow>
             addr i j = addr i0 j0 \<Longrightarrow> i = i0 \<and> j = j0"
  shows "(\<Sum>i = i_min..i_max - 1. \<Sum>j = j_min..j_max - 1.
            if addr i j = addr i0 j0 then f i j else 0) =
         (if i_min \<le> i0 \<and> i0 < i_max \<and> j_min \<le> j0 \<and> j0 < j_max then f i0 j0 else 0)"
proof -
  have "(\<Sum>i = i_min..i_max - 1. \<Sum>j = j_min..j_max - 1.
            if addr i j = addr i0 j0 then f i j else 0) =
        (\<Sum>i = i_min..i_max - 1. \<Sum>j = j_min..j_max - 1.
            if i = i0 then (if j = j0 then f i0 j0 else 0) else 0)"
    using assms by (intro sum.cong refl) auto
  also have "\<dots> = (\<Sum>i = i_min..i_max - 1. if i = i0 then
                      (\<Sum>j = j_min..j_max - 1. if j = j0 then f i0 j0 else 0) else 0)"
    by (intro sum.cong refl) simp
  also have "\<dots> = (if i_min \<le> i0 \<and> i0 < i_max \<and> j_min \<le> j0 \<and> j0 < j_max then f i0 j0 else 0)"
    by (simp add: sum.delta)
  finally show ?thesis .
qed

lemma row_major_injective:
  fixes n :: int
  assumes "0 \<le> j" "j < n" "0 \<le> j0" "j0 < n" "i * n + j = i0 * n + j0"
  shows "i = i0 \<and> j = j0"
proof -
  have n: "n \<noteq> 0" using assms by auto
  have "(j + i * n) div n = (j0 + i0 * n) div n"
    using assms(5) by (simp add: add.commute)
  then have "i = i0"
    using assms n by (simp add: div_mult_self1 div_pos_pos_trivial)
  with assms(5) show ?thesis by simp
qed

lemma update_pollution_valid:
  assumes "PyArray_TYPE a = NPY_DOUBLE" and "PyArray_DIMS a = [dims0, dims1]"
    and "PyArray_STRIDES a = [stride0, stride1]"
    and "0 \<le> i_min" and "i_max \<le> dims0" and "0 \<le> j_min" and "j_max \<le> dims1"
  shows "update_pollution data (PyArray a) i_min i_max j_min j_max x y emission_rate
           plume_height wind_speed wind_direction x_min x_max y_min y_max grid_resolution =
         (Py_None,
          for_range i_min i_max (\<lambda>i.
            for_range j_min j_max (\<lambda>j.
              add_at (i * (stride0 div 8) + j * (stride1 div 8))
                (cs_cell x y emission_rate plume_height wind_speed wind_direction
                   x_min x_max y_min y_max grid_resolution i j))) data)"
  using assms
  by (simp add: update_pollution_def PyArray_NDIM_def PyArray_STRIDE_def Let_def)

lemma update_pollution_cell:
  assumes "PyArray_TYPE a = NPY_DOUBLE" and "PyArray_DIMS a = [dims0, dims1]"
    and "PyArray_STRIDES a = [stride0, stride1]"
    and "0 \<le> i_min" and "i_max \<le> dims0" and "0 \<le> j_min" and "j_max \<le> dims1"
    and inj: "\<And>i' j'. i_min \<le> i' \<Longrightarrow> i' < i_max \<Longrightarrow> j_min \<le> j' \<Longrightarrow> j' < j_max \<Longrightarrow>
             i' * (stride0 div 8) + j' * (stride1 div 8) = i * (stride0 div 8) + j * (stride1 div 8)
             \<Longrightarrow> i' = i \<and> j' = j"
  shows "snd (update_pollution data (PyArray a) i_min i_max j_min j_max x y emission_rate
           plume_height wind_speed wind_direction x_min x_max y_min y_max grid_resolution)
           (i * (stride0 div 8) + j * (stride1 div 8)) =
         data (i * (stride0 div 8) + j * (stride1 div 8)) +
         (if i_min \<le> i \<and> i < i_max \<and> j_min \<le> j \<and> j < j_max
          then cell_value (cs_cell x y emission_rate plume_height wind_speed wind_direction
                 x_min x_max y_min y_max grid_resolution i j)
          else 0)"
proof -
  let ?addr = "\<lambda>i j. i * (stride0 div 8) + j * (stride1 div 8)"
  let ?cell = "cs_cell x y emission_rate plume_height wind_speed wind_direction
                 x_min x_max y_min y_max grid_resolution"
  have "snd (update_pollution data (PyArray a) i_min i_max j_min j_max x y emission_rate
           plume_height wind_speed wind_direction x_min x_max y_min y_max grid_resolution)
           (?addr i j) =
        for_range i_min i_max (\<lambda>i. for_range j_min j_max (\<lambda>j. add_at (?addr i j) (?cell i j)))
          data (?addr i j)"
    by (simp only: update_pollution_valid [OF assms(1-7)] snd_conv)
  also have "\<dots> = data (?addr i j) + (\<Sum>i' = i_min..i_max - 1. \<Sum>j' = j_min..j_max - 1.
                 if ?addr i' j' = ?addr i j then cell_value (?cell i' j') else 0)"
    by (rule window_sum)
  also have "(\<Sum>i' = i_min..i_max - 1. \<Sum>j' = j_min..j_max - 1.
                 if ?addr i' j' = ?addr i j then cell_value (?cell i' j') else 0) =
             (if i_min \<le> i \<and> i < i_max \<and> j_min \<le> j \<and> j < j_max
              then cell_value (?cell i j) else 0)"
    by (rule sum_single_cell) (rule inj)
  finally show ?thesis .
qed

lemma spam_update_pollution_cell:
  assumes "0 \<le> j_min" and "j_max \<le> grid_resolution" and "0 \<le> j" and "j < grid_resolution"
  shows "snd (spam_update_pollution data i_min i_max j_min j_max x y emission_rate
           plume_height wind_speed wind_direction x_min x_max y_min y_max grid_resolution)
           (i * grid_resolution + j) =
         data (i * grid_resolution + j) +
         (if i_min \<le> i \<and> i < i_max \<and> j_min \<le> j \<and> j < j_max
          then cell_value (spam_cell x y emission_rate plume_height wind_speed wind_direction
                 x_min x_max y_min y_max grid_resolution i j)
          else 0)"
proof -
  let ?addr = "\<lambda>i j. i * grid_resolution + j"
  let ?cell = "spam_cell x y emission_rate plume_height wind_speed wind_direction
                 x_min x_max y_min y_max grid_resolution"
  have "snd (spam_update_pollution data i_min i_max j_min j_max x y emission_rate
           plume_height wind_speed wind_direction x_min x_max y_min y_max grid_resolution)
           (?addr i j) =
        for_range i_min i_max (\<lambda>i. for_range j_min j_max (\<lambda>j. add_at (?addr i j) (?cell i j)))
          data (?addr i j)"
    by (simp only: spam_update_pollution_def snd_conv)
  also have "\<dots> = data (?addr i j) + (\<Sum>i' = i_min..i_max - 1. \<Sum>j' = j_min..j_max - 1.
                 if ?addr i' j' = ?addr i j then cell_value (?cell i' j') else 0)"
    by (rule window_sum)
  also have "(\<Sum>i' = i_min..i_max - 1. \<Sum>j' = j_min..j_max - 1.
                 if ?addr i' j' = ?addr i j then cell_value (?cell i' j') else 0) =
             (if i_min \<le> i \<and> i < i_max \<and> j_min \<le> j \<and> j < j_max
              then cell_value (?cell i j) else 0)"
  proof (rule sum_single_cell)
    fix i' j'
    assume "j_min \<le> j'" "j' < j_max" "i' * grid_resolution + j' = i * grid_resolution + j"
    then show "i' = i \<and> j' = j"
      using assms by (intro row_major_injective [of j' grid_resolution j i' i]) auto
  qed
  finally show ?thesis .
qed

lemma example_distance: "cell_distance 0 5 0 10 0 10 1 0 0 = 5"
proof -
  have "sqrt 25 = 5"
    by (rule real_sqrt_unique) simp_all
  then show ?thesis
    by (simp add: cell_distance_def receptor_dx_def receptor_dy_def)
qed

lemma far_example_distance: "cell_distance 0 500 0 1000 0 1000 1 0 0 = 500"
proof -
  have "sqrt 250000 = 500"
    by (rule real_sqrt_unique) simp_all
  then show ?thesis
    by (simp add: cell_distance_def receptor_dx_def receptor_dy_def)
qed


lemma example_angle: "angle_diff (receptor_dy 5 0 10 1 0) (receptor_dx 0 0 10 1 0) 0 = 0"
  by (simp add: angle_diff_def atan2_def Let_def M_PI_def receptor_dx_def receptor_dy_def)

subsection \<open>The decay pass\<close>

lemma fold_decay:
  fixes c :: real
  assumes "distinct ks"
  shows "fold (\<lambda>i d. d(i := d i * c)) ks data k = (if k \<in> set ks then data k * c else data k)"
  using assms by (induction ks arbitrary: data) auto

lemma decay_loop:
  fixes data :: "int \<Rightarrow> real"
  shows "for_range 0 n (\<lambda>i d. d(i := d i * 0.99)) data k =
     (if 0 \<le> k \<and> k < n then data k * 0.99 else data k)"
proof -
  have "for_range 0 n (\<lambda>i d. d(i := d i * 0.99)) data k =
        fold (\<lambda>i d. d(i := d i * 0.99)) [0..n - 1] data k"
    by (simp only: for_range_fold)
  also have "\<dots> = (if k \<in> set [0..n - 1] then data k * 0.99 else data k)"
    by (rule fold_decay) simp
  also have "\<dots> = (if 0 \<le> k \<and> k < n then data k * 0.99 else data k)"
    by auto
  finally show ?thesis .
qed

lemma decayed_ones: "for_range 0 1 (\<lambda>i d. d(i := d i * 0.99)) ones = ones(0 := 0.99)"
  by (rule ext) (simp only: decay_loop, simp)

subsection \<open>Sign of a concentration, in exact arithmetic\<close>

text \<open>
  With real numbers for doubles every factor of a concentration is a non-zero real. In double
  precision \<^verbatim>\<open>exp\<close> underflows to \<open>0\<close>: the signs below are those of the model.
\<close>

lemma spam_cell_pos:
  assumes "0 < emission_rate" and "0 < wind_speed"
    and "1 \<le> cell_distance x y x_min x_max y_min y_max grid_resolution i j"
  shows "\<exists>c. spam_cell x y emission_rate plume_height wind_speed wind_direction
           x_min x_max y_min y_max grid_resolution i j = Some c \<and> 0 < c"
proof -
  let ?d = "cell_distance x y x_min x_max y_min y_max grid_resolution i j"
  have "0 < ?d" using assms(3) by simp
  moreover have "0 < (1 + ?d / 10000) powr (- (1 / 2))" using \<open>0 < ?d\<close> by simp
  ultimately show ?thesis
    using assms by (simp add: spam_cell_unfold Let_def M_PI_def add_pos_pos)
qed

lemma cs_cell_neg:
  assumes "0 < emission_rate" and "wind_speed < 0"
    and "1 \<le> cell_distance x y x_min x_max y_min y_max grid_resolution i j"
    and "cell_distance x y x_min x_max y_min y_max grid_resolution i j \<le> 300"
  shows "\<exists>c. cs_cell x y emission_rate plume_height wind_speed wind_direction
           x_min x_max y_min y_max grid_resolution i j = Some c \<and> c < 0"
proof -
  let ?d = "cell_distance x y x_min x_max y_min y_max grid_resolution i j"
  let ?p = "(1 + ?d / 10000) powr (- (1 / 2))"
  have d: "0 < ?d" using assms(3) by simp
  then have p: "0 < ?p" by simp
  have e: "emission_rate / (2 * pi * wind_speed) < 0"
    using assms(1,2) by (simp add: divide_pos_neg mult_pos_neg)
  have s: "0 < (1 / 10 * ?d * ?p) * (5 / 100 * ?d * ?p)"
    using d p by simp
  have "emission_rate / (2 * pi * wind_speed) * L * (V * 2) / ((1 / 10 * ?d * ?p) * (5 / 100 * ?d * ?p)) < 0"
    if "0 < L" "0 < V" for L V :: real
  proof -
    have "emission_rate / (2 * pi * wind_speed) * L < 0"
      using e that(1) by (rule mult_neg_pos)
    moreover have "0 < V * 2"
      using that(2) by simp
    ultimately have "emission_rate / (2 * pi * wind_speed) * L * (V * 2) < 0"
      by (rule mult_neg_pos)
    then show ?thesis
      using s by (rule divide_neg_pos)
  qed
  from this [of "exp A" "exp B" for A B] show ?thesis
    using assms(3,4) by (simp add: cs_cell_unfold Let_def M_PI_def not_less [symmetric])
qed

lemma multiple_cell_pos:
  assumes "0 < emission_rate" and "0 < wind_speed"
    and "1 \<le> cell_distance x y x_min x_max y_min y_max grid_resolution i j"
    and "cell_distance x y x_min x_max y_min y_max grid_resolution i j \<le> 300"
  shows "\<exists>c. multiple_cell stability_class x y emission_rate plume_height wind_speed
           wind_direction x_min x_max y_min y_max grid_resolution i j = Some c \<and> 0 < c"
proof -
  let ?d = "cell_distance x y x_min x_max y_min y_max grid_resolution i j"
  let ?p = "pow (1 + 0.0001 * ?d) (- 0.5)"
  have d: "0 < ?d" using assms(3) by simp
  then have p: "0 < ?p" by simp
  define ab :: "real \<times> real" where
    "ab = (if stability_class = ''A'' then (0.22, 0.20)
           else if stability_class = ''B'' then (0.16, 0.12)
           else if stability_class = ''C'' then (0.11, 0.08)
           else if stability_class = ''D'' then (0.08, 0.06)
           else if stability_class = ''E'' then (0.06, 0.03)
           else if stability_class = ''F'' then (0.04, 0.016)
           else (0.10, 0.05))"
  define a b where "a = fst ab" and "b = snd ab"
  have ab: "calculate_dispersion_coefficients stability_class ?d
      = (a * ?d * ?p, b * ?d * ?p)" "0 < a" "0 < b"
    unfolding calculate_dispersion_coefficients_def ab_def [symmetric] Let_def a_def b_def
    by (simp_all add: case_prod_beta) (simp_all add: ab_def)
  have s: "0 < (a * ?d * ?p) * (b * ?d * ?p)"
    using d p ab(2,3) by simp
  have e: "0 < emission_rate / (2 * M_PI * wind_speed)"
    using assms(1,2) by (simp add: M_PI_def)
  have band: "\<not> ?d < 1" "\<not> ?d > 300"
    using assms(3,4) by auto
  have pos: "0 < q * L * (V * 2) / s" if "0 < q" "0 < L" "0 < V" "0 < s" for q L V s :: real
    using that by simp
  have "multiple_cell stability_class x y emission_rate plume_height wind_speed
           wind_direction x_min x_max y_min y_max grid_resolution i j =
        Some (emission_rate / (2 * M_PI * wind_speed)
              * exp (- 0.5 * pow (angle_diff (receptor_dy y y_min y_max grid_resolution i)
                                   (receptor_dx x x_min x_max grid_resolution j)
                                   wind_direction / (a * ?d * ?p)) 2)
              * (exp (- 0.5 * pow (plume_height / (b * ?d * ?p)) 2) * 2)
              / ((a * ?d * ?p) * (b * ?d * ?p)))"
    unfolding multiple_cell_unfold Let_def if_not_P [OF band(1)] if_not_P [OF band(2)]
      ab(1) prod.case ..
  then show ?thesis
    using pos [OF e exp_gt_zero exp_gt_zero s] by blast
qed

lemma cs_cell_pos:
  assumes "0 < emission_rate" and "0 < wind_speed"
    and "1 \<le> cell_distance x y x_min x_max y_min y_max grid_resolution i j"
    and "cell_distance x y x_min x_max y_min y_max grid_resolution i j \<le> 300"
  shows "\<exists>c. cs_cell x y emission_rate plume_height wind_speed wind_direction
           x_min x_max y_min y_max grid_resolution i j = Some c \<and> 0 < c"
  using multiple_cell_pos [OF assms, of "''X''" plume_height wind_direction]
    multiple_cell_fallback [of "''X''" x y emission_rate plume_height wind_speed wind_direction
      x_min x_max y_min y_max grid_resolution i j]
  by simp


subsection \<open>The parse of the arguments of \<^verbatim>\<open>update_pollution_multiple\<close>\<close>

text \<open>
  A call with a number of arguments other than ten fails in \<^verbatim>\<open>PyArg_ParseTuple\<close>, before
  the grid is looked at; the call with the eleven arguments the destinations suggest is one
  of them. A call with ten arguments of the right types reaches the body.
\<close>

lemma other_number_of_arguments:
  "length args \<noteq> 10 \<Longrightarrow>
   update_pollution_multiple data args y_max grid_resolution = (NULL TypeError, data)"
  by (simp add: update_pollution_multiple_def PyArg_ParseTuple_def)

lemma eleven_arguments_are_rejected:
  "update_pollution_multiple data
     [Grid_arg grid, List_arg vehicle_list, Float_arg wind_speed, Float_arg wind_direction,
      Float_arg emission_factor, Str_arg stability_class, Float_arg x_min, Float_arg x_max,
      Float_arg y_min, Float_arg y_max, Long_arg grid_resolution] y_max' grid_resolution'
   = (NULL TypeError, data)"
  by (rule other_number_of_arguments) simp

lemma parsed_call:
  assumes "PyArg_ParseTuple args =
             Inr (grid, vehicle_list, wind_speed, wind_direction, emission_factor,
                  stability_class, x_min, x_max, y_min, over_y_max)"
  shows "update_pollution_multiple data args y_max grid_resolution =
         update_pollution_multiple_body data grid vehicle_list wind_speed wind_direction
           emission_factor stability_class x_min x_max y_min y_max grid_resolution"
  using assms by (simp add: update_pollution_multiple_def)

lemma parse_ten_arguments:
  "PyArg_ParseTuple (ten_arguments grid vehicles wind_speed) =
     Inr (grid, PyList vehicles, wind_speed, 0, 1, ''D'', 0, 10, 0, 0)"
  by (simp add: PyArg_ParseTuple_def ten_arguments_def format_O_grid_def format_O_list_def
      format_d_def format_s_def format_i_def)

lemma ten_arguments_call:
  "update_pollution_multiple data (ten_arguments grid vehicles wind_speed) y_max
     grid_resolution =
   update_pollution_multiple_body data grid (PyList vehicles) wind_speed 0 1 ''D'' 0 10 0
     y_max grid_resolution"
  by (simp add: update_pollution_multiple_def parse_ten_arguments)





lemma parse_wind_speed:
  "PyArg_ParseTuple (grid # vehicle_list # Float_arg wind_speed # rest) =
     (case PyArg_ParseTuple (grid # vehicle_list # Float_arg 0 # rest) of
        Inl e \<Rightarrow> Inl e
      | Inr (g, l, ws, p) \<Rightarrow> Inr (g, l, wind_speed, p))"
  by (simp add: PyArg_ParseTuple_def format_d_def split: sum.splits)

lemma empty_batch_body:
  assumes "PyArray_TYPE a = NPY_DOUBLE" and "PyArray_NDIM a = 2"
  shows "update_pollution_multiple_body data (PyArray a) (PyList []) wind_speed wind_direction
           emission_factor stability_class x_min x_max y_min y_max grid_resolution =
         (Py_None, \<lambda>k. if 0 \<le> k \<and> k < PyArray_SIZE a then data k * 0.99 else data k)"
proof -
  have "for_range 0 (PyArray_SIZE a) (\<lambda>i d. d(i := d i * 0.99)) data =
        (\<lambda>k. if 0 \<le> k \<and> k < PyArray_SIZE a then data k * 0.99 else data k)"
    by (rule ext) (rule decay_loop)
  then show ?thesis
    using assms by (simp add: update_pollution_multiple_body_def)
qed


section \<open>The dispersion coefficients: class D and the fallback\<close>

text \<open>
  C1, as amended. For every distance \<open>d \<ge> 0\<close> the function applied to the class \<open>D\<close>
  uses the coefficients \<open>a = 0.08\<close> and \<open>b = 0.06\<close> of its own branch for \<open>D\<close>, and for
  the strings outside \<open>A\<close> to \<open>F\<close> it returns, with no error, one pair that does not depend
  on the string.
\<close>

theorem class_D_coefficients:
  assumes "0 \<le> d"
  shows "calculate_dispersion_coefficients ''D'' d =
           (0.08 * d * (1 + 0.0001 * d) powr (- 0.5), 0.06 * d * (1 + 0.0001 * d) powr (- 0.5))
       \<and> (\<forall>c1 c2. c1 \<notin> {''A'', ''B'', ''C'', ''D'', ''E'', ''F''}
                \<and> c2 \<notin> {''A'', ''B'', ''C'', ''D'', ''E'', ''F''}
              \<longrightarrow> calculate_dispersion_coefficients c1 d =
                  calculate_dispersion_coefficients c2 d)"
  by (simp add: calculate_dispersion_coefficients_def)

theorem class_D_coefficients_witness:
  "(0::real) \<le> 100
   \<and> calculate_dispersion_coefficients ''D'' 100 =
       (0.08 * 100 * (1 + 0.0001 * 100) powr (- 0.5), 0.06 * 100 * (1 + 0.0001 * 100) powr (- 0.5))
   \<and> calculate_dispersion_coefficients ''X'' 100 = calculate_dispersion_coefficients ''G'' 100"
  using class_D_coefficients [of 100] by simp

text \<open>
  C1 as stated fails. At the distance 100 the function gives \<open>(8 p, 6 p)\<close> for \<open>D\<close> and
  \<open>(10 p, 5 p)\<close> for the unknown class \<open>X\<close>, where \<open>p = 1.01 powr (-1/2)\<close>: the pair
  \<open>0.10\<close>, \<open>0.05\<close> is that of the final \<^verbatim>\<open>else\<close>, which its comment calls class D, and
  is not the pair of the branch for \<open>D\<close>.
\<close>

theorem class_D_is_not_the_fallback:
  "calculate_dispersion_coefficients ''D'' 100 = (8 * 1.01 powr (- (1 / 2)), 6 * 1.01 powr (- (1 / 2)))
   \<and> calculate_dispersion_coefficients ''X'' 100
       = (10 * 1.01 powr (- (1 / 2)), 5 * 1.01 powr (- (1 / 2)))
   \<and> calculate_dispersion_coefficients ''X'' 100 \<noteq> calculate_dispersion_coefficients ''D'' 100"
  by (simp add: calculate_dispersion_coefficients_def)

section \<open>The angular difference\<close>

lemma atan2_bounds: "- pi < atan2 y x \<and> atan2 y x \<le> pi"
proof -
  have b: "- (pi / 2) < arctan (y / x)" "arctan (y / x) < pi / 2"
    by (rule arctan_lbound, rule arctan_ubound)
  have neg: "x < 0 \<Longrightarrow> 0 \<le> y \<Longrightarrow> arctan (y / x) \<le> 0"
    by (simp add: divide_nonneg_neg)
  have pos: "x < 0 \<Longrightarrow> y < 0 \<Longrightarrow> 0 < arctan (y / x)"
    by (simp add: divide_neg_neg)
  show ?thesis
    using b neg pos pi_gt_zero by (auto simp: atan2_def)
qed

lemma angle_diff_range_iff:
  "0 \<le> angle_diff dy dx wind_direction \<and> angle_diff dy dx wind_direction \<le> pi
   \<longleftrightarrow> \<bar>atan2 dy dx - wind_direction\<bar> \<le> 2 * pi"
  using pi_gt_zero by (auto simp: angle_diff_def Let_def M_PI_def)

text \<open>
  C8, as amended. No loop reduces \<^verbatim>\<open>wind_direction\<close> modulo \<open>2\<pi>\<close>; the single
  wrap-around \<^verbatim>\<open>if (angle_diff > M_PI) angle_diff = two_pi - angle_diff\<close> brings the
  difference into \<open>[0, \<pi>]\<close> exactly when it is at most \<open>2\<pi>\<close>
  (\<open>angle_diff_range_iff\<close>). So for every wind direction in \<open>[-\<pi>, \<pi>]\<close> and every
  receptor offset the angular difference lies in \<open>[0, \<pi>]\<close>.
\<close>

theorem angle_diff_in_range:
  assumes "- pi \<le> wind_direction" and "wind_direction \<le> pi"
  shows "0 \<le> angle_diff dy dx wind_direction \<and> angle_diff dy dx wind_direction \<le> pi"
proof -
  have "\<bar>atan2 dy dx - wind_direction\<bar> \<le> 2 * pi"
    using atan2_bounds [of dy dx] assms by (simp add: abs_le_iff)
  then show ?thesis
    by (simp only: angle_diff_range_iff)
qed

theorem angle_diff_in_range_witness:
  "- pi \<le> pi / 2 \<and> pi / 2 \<le> pi
   \<and> 0 \<le> angle_diff 1 (- 1) (pi / 2) \<and> angle_diff 1 (- 1) (pi / 2) \<le> pi"
  using angle_diff_in_range [of "pi / 2" 1 "- 1"] pi_gt_zero by simp

text \<open>
  C8 as stated fails: for the receptor offset \<open>(dx, dy) = (1, 0)\<close> and the wind direction
  \<open>10\<close> radians the code computes \<open>2\<pi> - 10\<close>, a negative number.
\<close>

theorem angle_diff_negative_without_reduction:
  "angle_diff 0 1 10 = 2 * pi - 10 \<and> angle_diff 0 1 10 < 0"
  using pi_less_4 pi_gt_zero by (simp add: angle_diff_def atan2_def Let_def M_PI_def)

section \<open>The window of a vehicle\<close>

lemma int_of_double_Some:
  "int_of_double d = Some t \<Longrightarrow> t = (if 0 \<le> d then \<lfloor>d\<rfloor> else \<lceil>d\<rceil>)"
  by (auto simp: int_of_double_def Let_def split: if_splits)

lemma int_of_double_of_int:
  "int_of_double (real_of_int n) = (if - (2 ^ 31) \<le> n \<and> n \<le> 2 ^ 31 - 1 then Some n else None)"
  by (simp add: int_of_double_def Let_def)

lemma window_clamped:
  assumes "window_i_min y y_min y_max grid_resolution = Some i_min"
    and "window_i_max dims0 y y_min y_max grid_resolution = Some i_max"
    and "window_j_min x x_min x_max grid_resolution = Some j_min"
    and "window_j_max dims1 x x_min x_max grid_resolution = Some j_max"
  shows "0 \<le> i_min \<and> i_max \<le> dims0 \<and> 0 \<le> j_min \<and> j_max \<le> dims1"
proof -
  have lo: "0 \<le> t" if "int_of_double (max 0 v) = Some t" for v t
    using int_of_double_Some [OF that] by (simp split: if_splits)
  have hi: "t \<le> n" if "int_of_double (min (of_int n) v) = Some t" for v t n
  proof -
    have "\<lfloor>min (of_int n) v\<rfloor> \<le> n"
      by (simp add: floor_le_iff min_less_iff_disj)
    moreover have "\<lceil>min (of_int n) v\<rceil> \<le> n"
      by (simp add: ceiling_le_iff)
    ultimately show ?thesis
      using int_of_double_Some [OF that] by (simp split: if_splits)
  qed
  show ?thesis
    using assms lo hi
    unfolding window_i_min_def window_i_max_def window_j_min_def window_j_max_def
    by blast
qed

lemma vehicle_update_Some:
  assumes "PyArray_DIMS a = [dims0, dims1]" and "PyArray_STRIDES a = [stride0, stride1]"
    and "window_i_min (fst (PyFloat_AsDouble (PyTuple_GetItem v 1))) y_min y_max
           grid_resolution = Some i_min"
    and "window_i_max dims0 (fst (PyFloat_AsDouble (PyTuple_GetItem v 1))) y_min y_max
           grid_resolution = Some i_max"
    and "window_j_min (fst (PyFloat_AsDouble (PyTuple_GetItem v 0))) x_min x_max
           grid_resolution = Some j_min"
    and "window_j_max dims1 (fst (PyFloat_AsDouble (PyTuple_GetItem v 0))) x_min x_max
           grid_resolution = Some j_max"
  shows "vehicle_update a wind_speed wind_direction emission_factor stability_class
           x_min x_max y_min y_max grid_resolution v data =
         Some (for_range i_min i_max (\<lambda>i.
                 for_range j_min j_max (\<lambda>j.
                   add_at (i * (stride0 div 8) + j * (stride1 div 8))
                     (multiple_cell stability_class
                        (fst (PyFloat_AsDouble (PyTuple_GetItem v 0)))
                        (fst (PyFloat_AsDouble (PyTuple_GetItem v 1)))
                        (calculate_emission_rate
                           (fst (PyFloat_AsDouble (PyTuple_GetItem v 2))) emission_factor)
                        (calculate_plume_rise (fst (PyFloat_AsDouble (PyTuple_GetItem v 2))))
                        wind_speed wind_direction x_min x_max y_min y_max
                        grid_resolution i j))) data)"
  using assms by (simp add: vehicle_update_def Let_def PyArray_STRIDE_def)

lemma vehicle_update_windows:
  assumes "PyArray_DIMS a = [dims0, dims1]"
    and "vehicle_update a wind_speed wind_direction emission_factor stability_class
           x_min x_max y_min y_max grid_resolution v data = Some data'"
  shows "\<exists>i_min i_max j_min j_max.
           window_i_min (fst (PyFloat_AsDouble (PyTuple_GetItem v 1))) y_min y_max
             grid_resolution = Some i_min
         \<and> window_i_max dims0 (fst (PyFloat_AsDouble (PyTuple_GetItem v 1))) y_min y_max
             grid_resolution = Some i_max
         \<and> window_j_min (fst (PyFloat_AsDouble (PyTuple_GetItem v 0))) x_min x_max
             grid_resolution = Some j_min
         \<and> window_j_max dims1 (fst (PyFloat_AsDouble (PyTuple_GetItem v 0))) x_min x_max
             grid_resolution = Some j_max"
  using assms by (simp add: vehicle_update_def Let_def split: option.splits)

lemma vehicle_update_writes_window_cells:
  assumes "PyArray_DIMS a = [dims0, dims1]" and "PyArray_STRIDES a = [stride0, stride1]"
    and "window_i_min (fst (PyFloat_AsDouble (PyTuple_GetItem v 1))) y_min y_max
           grid_resolution = Some i_min"
    and "window_i_max dims0 (fst (PyFloat_AsDouble (PyTuple_GetItem v 1))) y_min y_max
           grid_resolution = Some i_max"
    and "window_j_min (fst (PyFloat_AsDouble (PyTuple_GetItem v 0))) x_min x_max
           grid_resolution = Some j_min"
    and "window_j_max dims1 (fst (PyFloat_AsDouble (PyTuple_GetItem v 0))) x_min x_max
           grid_resolution = Some j_max"
    and "vehicle_update a wind_speed wind_direction emission_factor stability_class
           x_min x_max y_min y_max grid_resolution v data = Some data'"
    and "data' k \<noteq> data k"
  shows "\<exists>i j. i_min \<le> i \<and> i < i_max \<and> j_min \<le> j \<and> j < j_max
               \<and> k = i * (stride0 div 8) + j * (stride1 div 8)"
proof (rule ccontr)
  assume outside: "\<not> ?thesis"
  have "data' = for_range i_min i_max (\<lambda>i. for_range j_min j_max (\<lambda>j.
      add_at (i * (stride0 div 8) + j * (stride1 div 8))
        (multiple_cell stability_class (fst (PyFloat_AsDouble (PyTuple_GetItem v 0)))
           (fst (PyFloat_AsDouble (PyTuple_GetItem v 1)))
           (calculate_emission_rate (fst (PyFloat_AsDouble (PyTuple_GetItem v 2)))
              emission_factor)
           (calculate_plume_rise (fst (PyFloat_AsDouble (PyTuple_GetItem v 2))))
           wind_speed wind_direction x_min x_max y_min y_max grid_resolution i j))) data"
    using vehicle_update_Some [OF assms(1-6), of wind_speed wind_direction emission_factor
        stability_class data] assms(7)
    by simp
  then have "data' k = data k"
    using outside by (simp only:) (intro window_sum_unchanged, auto)
  with assms(8) show False by simp
qed





text \<open>
  For the whole call: whatever the list of vehicles, the memory a call changes is within the
  range \<^verbatim>\<open>data[0]\<close> to \<^verbatim>\<open>data[size - 1]\<close> of the decay pass or at the address of a cell
  of the grid.
\<close>

lemma vehicles_loop_changes_cells_only:
  assumes "PyArray_DIMS a = [dims0, dims1]" and "PyArray_STRIDES a = [stride0, stride1]"
    and "vehicles_loop a wind_speed wind_direction emission_factor stability_class
           x_min x_max y_min y_max grid_resolution vehicles data err = (r, data')"
    and "data' k \<noteq> data k"
  shows "\<exists>i j. 0 \<le> i \<and> i < dims0 \<and> 0 \<le> j \<and> j < dims1
               \<and> k = i * (stride0 div 8) + j * (stride1 div 8)"
  using assms(3,4)
proof (induction vehicles arbitrary: data err)
  case Nil
  then show ?case by simp
next
  case (Cons v vs)
  from Cons.prems obtain d1 where
    step: "vehicle_update a wind_speed wind_direction emission_factor stability_class
             x_min x_max y_min y_max grid_resolution v data = Some d1"
    and rest: "vehicles_loop a wind_speed wind_direction emission_factor stability_class
             x_min x_max y_min y_max grid_resolution vs d1 (err \<or> vehicle_error v)
             = (r, data')"
    by (auto split: if_splits option.splits)
  show ?case
  proof (cases "data' k = d1 k")
    case False
    with rest show ?thesis
      by (rule Cons.IH)
  next
    case True
    with Cons.prems(2) have changed: "d1 k \<noteq> data k"
      by simp
    let ?x = "fst (PyFloat_AsDouble (PyTuple_GetItem v 0))"
    let ?y = "fst (PyFloat_AsDouble (PyTuple_GetItem v 1))"
    obtain i_min i_max j_min j_max where
      w: "window_i_min ?y y_min y_max grid_resolution = Some i_min"
         "window_i_max dims0 ?y y_min y_max grid_resolution = Some i_max"
         "window_j_min ?x x_min x_max grid_resolution = Some j_min"
         "window_j_max dims1 ?x x_min x_max grid_resolution = Some j_max"
      using vehicle_update_windows [OF assms(1) step] by blast
    have clamp: "0 \<le> i_min" "i_max \<le> dims0" "0 \<le> j_min" "j_max \<le> dims1"
      using window_clamped [OF w] by simp_all
    obtain i j where "i_min \<le> i" "i < i_max" "j_min \<le> j" "j < j_max"
      "k = i * (stride0 div 8) + j * (stride1 div 8)"
      using vehicle_update_writes_window_cells [OF assms(1,2) w step changed] by blast
    with clamp show ?thesis
      by (intro exI [of _ i] exI [of _ j]) simp
  qed
qed

lemma call_changes_grid_cells_only:
  assumes "PyArg_ParseTuple args =
             Inr (PyArray a, vehicle_list, wind_speed, wind_direction, emission_factor,
                  stability_class, x_min, x_max, y_min, over_y_max)"
    and "PyArray_DIMS a = [dims0, dims1]" and "PyArray_STRIDES a = [stride0, stride1]"
    and "update_pollution_multiple data args y_max grid_resolution = (r, data')"
    and "data' k \<noteq> data k"
  shows "(0 \<le> k \<and> k < dims0 * dims1)
       \<or> (\<exists>i j. 0 \<le> i \<and> i < dims0 \<and> 0 \<le> j \<and> j < dims1
                 \<and> k = i * (stride0 div 8) + j * (stride1 div 8))"
proof -
  let ?decayed = "for_range 0 (PyArray_SIZE a) (\<lambda>i d. d(i := d i * 0.99)) data"
  have body: "update_pollution_multiple_body data (PyArray a) vehicle_list wind_speed
      wind_direction emission_factor stability_class x_min x_max y_min y_max grid_resolution
      = (r, data')"
    using assms(4) by (simp only: parsed_call [OF assms(1)])
  have size: "PyArray_SIZE a = dims0 * dims1"
    using assms(2) by (simp add: PyArray_SIZE_def)
  show ?thesis
  proof (cases "0 \<le> k \<and> k < dims0 * dims1")
    case True
    then show ?thesis by simp
  next
    case False
    then have kept: "?decayed k = data k"
      by (simp only: decay_loop size) simp
    from body assms(5) obtain vehicles where
      loop: "vehicles_loop a wind_speed wind_direction emission_factor stability_class
               x_min x_max y_min y_max grid_resolution vehicles ?decayed False = (r, data')"
      by (auto simp: update_pollution_multiple_body_def split: if_splits list_object.splits)
    have "data' k \<noteq> ?decayed k"
      using assms(5) kept by simp
    from vehicles_loop_changes_cells_only [OF assms(2,3) loop this] show ?thesis
      by simp
  qed
qed

text \<open>
  Two facts about the bounds that hold for every positive value of \<^verbatim>\<open>grid_resolution\<close>,
  over the area with \<open>x_min = 0\<close> and \<open>x_max = 10\<close>. For a vehicle 200 to the left of the
  area the upper bound of the columns is negative. For a vehicle at \<open>x = 10\<^sup>1\<^sup>2\<close> the
  operand of the cast for the lower bound of the columns is beyond the range of \<^verbatim>\<open>int\<close>:
  \<^verbatim>\<open>fmax\<close> guards the cast from below only, the conversion is undefined, and so is the
  call, whatever \<open>y_max\<close> holds.
\<close>

lemma window_j_max_left_of_the_area:
  assumes "1 \<le> g" and "10 * g \<le> 2 ^ 31" and "0 \<le> dims1"
  shows "window_j_max dims1 (- 200) 0 10 g = Some (- (10 * g))"
proof -
  have "min (real_of_int dims1) (((- 200) - 0 + 100) / (10 - 0) * real_of_int g)
        = real_of_int (- (10 * g))"
    using assms by simp
  moreover have "int_of_double (real_of_int (- (10 * g))) = Some (- (10 * g))"
    using assms by (simp only: int_of_double_of_int) simp
  ultimately show ?thesis
    by (simp only: window_j_max_def)
qed




section \<open>The near-field and far-field cutoffs\<close>

text \<open>
  In \<^verbatim>\<open>cs_module.c\<close> a cell whose centre is nearer than 1 or farther than 300 from the
  source keeps its value, whatever the window, provided no other cell of the window shares
  its address (as in every array whose cells do not overlap).
\<close>

lemma update_pollution_skips_near_and_far:
  assumes "PyArray_TYPE a = NPY_DOUBLE" and "PyArray_DIMS a = [dims0, dims1]"
    and "PyArray_STRIDES a = [stride0, stride1]"
    and "0 \<le> i_min" and "i_max \<le> dims0" and "0 \<le> j_min" and "j_max \<le> dims1"
    and inj: "\<And>i' j'. i_min \<le> i' \<Longrightarrow> i' < i_max \<Longrightarrow> j_min \<le> j' \<Longrightarrow> j' < j_max \<Longrightarrow>
             i' * (stride0 div 8) + j' * (stride1 div 8) = i * (stride0 div 8) + j * (stride1 div 8)
             \<Longrightarrow> i' = i \<and> j' = j"
    and "cell_distance x y x_min x_max y_min y_max grid_resolution i j < 1
         \<or> 300 < cell_distance x y x_min x_max y_min y_max grid_resolution i j"
  shows "snd (update_pollution data (PyArray a) i_min i_max j_min j_max x y emission_rate
           plume_height wind_speed wind_direction x_min x_max y_min y_max grid_resolution)
           (i * (stride0 div 8) + j * (stride1 div 8)) =
         data (i * (stride0 div 8) + j * (stride1 div 8))"
proof -
  have "cs_cell x y emission_rate plume_height wind_speed wind_direction
          x_min x_max y_min y_max grid_resolution i j = None"
    using assms(9) by (simp only: cs_cell_None_iff)
  then show ?thesis
    by (simp only: update_pollution_cell [OF assms(1-7) inj] cell_value_def) simp
qed

text \<open>
  C2. The claim: the single-source updater leaves unchanged every cell at distance below 1
  and every cell at distance above 300. \<^verbatim>\<open>update_pollution\<close> of \<^verbatim>\<open>spam_module.c\<close> has
  the first test only. On a grid of one cell over \<open>[0, 1000] \<times> [0, 1000]\<close> with the source
  at \<open>(0, 500)\<close> the centre of the cell is 500 away, and the call adds a positive
  concentration to it; \<^verbatim>\<open>cs_module.c\<close> skips the cell
  (\<open>update_pollution_skips_near_and_far\<close>).
\<close>

theorem spam_updates_beyond_far_field:
  "cell_distance 0 500 0 1000 0 1000 1 0 0 = 500
   \<and> 0 < snd (spam_update_pollution zeros 0 1 0 1 0 500 1 2 1 0 0 1000 0 1000 1) 0"
proof -
  obtain c where c: "spam_cell 0 500 1 2 1 0 0 1000 0 1000 1 0 0 = Some c" "0 < c"
    using spam_cell_pos [of 1 1 0 500 0 1000 0 1000 1 0 0 2 0]
    by (auto simp: far_example_distance)
  have "snd (spam_update_pollution zeros 0 1 0 1 0 500 1 2 1 0 0 1000 0 1000 1) (0 * 1 + 0)
        = zeros (0 * 1 + 0) + cell_value (spam_cell 0 500 1 2 1 0 0 1000 0 1000 1 0 0)"
    by (subst spam_update_pollution_cell) simp_all
  then show ?thesis
    using c by (simp add: cell_value_def far_example_distance)
qed

section \<open>Wind speed\<close>

lemma vehicle_update_defined_indep:
  "(vehicle_update a wind_speed wind_direction emission_factor stability_class
       x_min x_max y_min y_max grid_resolution vehicle_tuple data = None) =
   (vehicle_update a wind_speed' wind_direction emission_factor stability_class
       x_min x_max y_min y_max grid_resolution vehicle_tuple data' = None)"
  by (simp add: vehicle_update_def Let_def split: option.splits)

lemma vehicles_loop_status_indep:
  "fst (vehicles_loop a wind_speed wind_direction emission_factor stability_class
          x_min x_max y_min y_max grid_resolution vehicles data err) =
   fst (vehicles_loop a wind_speed' wind_direction emission_factor stability_class
          x_min x_max y_min y_max grid_resolution vehicles data' err)"
proof (induction vehicles arbitrary: data data' err)
  case Nil
  show ?case by simp
next
  case (Cons v vs)
  show ?case
    using vehicle_update_defined_indep [of a wind_speed wind_direction emission_factor
        stability_class x_min x_max y_min y_max grid_resolution v data wind_speed' data']
      Cons.IH
    by (auto split: option.splits)
qed

lemma body_status_indep:
  "fst (update_pollution_multiple_body data grid vehicle_list wind_speed wind_direction
          emission_factor stability_class x_min x_max y_min y_max grid_resolution) =
   fst (update_pollution_multiple_body data grid vehicle_list wind_speed' wind_direction
          emission_factor stability_class x_min x_max y_min y_max grid_resolution)"
  using vehicles_loop_status_indep
  by (simp add: update_pollution_multiple_body_def split: grid_object.splits list_object.splits)

text \<open>
  C4, as amended. Neither module inspects \<^verbatim>\<open>wind_speed\<close>: whether a call of
  \<^verbatim>\<open>update_pollution\<close> or \<^verbatim>\<open>update_pollution_multiple\<close> fails does not depend on it,
  and \<^verbatim>\<open>update_pollution\<close> of \<^verbatim>\<open>spam_module.c\<close> never fails. A call with a wind speed
  that is zero or negative, valid otherwise, returns \<^verbatim>\<open>None\<close> like any other. For
  \<^verbatim>\<open>update_pollution_multiple\<close> this is stated twice: for the body of the function with
  any values of its variables, and for the function as called, with the wind speed as the
  third argument.
\<close>

theorem wind_speed_is_not_validated:
  "fst (update_pollution data grid i_min i_max j_min j_max x y emission_rate plume_height
          wind_speed wind_direction x_min x_max y_min y_max grid_resolution) =
   fst (update_pollution data grid i_min i_max j_min j_max x y emission_rate plume_height
          wind_speed' wind_direction x_min x_max y_min y_max grid_resolution)
   \<and> fst (update_pollution_multiple_body data grid vehicle_list wind_speed wind_direction
          emission_factor stability_class x_min x_max y_min y_max grid_resolution) =
     fst (update_pollution_multiple_body data grid vehicle_list wind_speed' wind_direction
          emission_factor stability_class x_min x_max y_min y_max grid_resolution)
   \<and> fst (update_pollution_multiple data (arg0 # arg1 # Float_arg wind_speed # args)
            y_max grid_resolution) =
     fst (update_pollution_multiple data (arg0 # arg1 # Float_arg wind_speed' # args)
            y_max grid_resolution)
   \<and> fst (spam_update_pollution data i_min i_max j_min j_max x y emission_rate plume_height
          wind_speed wind_direction x_min x_max y_min y_max grid_resolution) = Py_None"
proof -
  have single: "fst (update_pollution data grid i_min i_max j_min j_max x y emission_rate
          plume_height wind_speed wind_direction x_min x_max y_min y_max grid_resolution) =
     fst (update_pollution data grid i_min i_max j_min j_max x y emission_rate plume_height
          wind_speed' wind_direction x_min x_max y_min y_max grid_resolution)"
    by (simp add: update_pollution_def Let_def split: grid_object.splits)
  have call: "fst (update_pollution_multiple data (arg0 # arg1 # Float_arg wind_speed # args)
            y_max grid_resolution) =
     fst (update_pollution_multiple data (arg0 # arg1 # Float_arg wind_speed' # args)
            y_max grid_resolution)"
    unfolding update_pollution_multiple_def
      parse_wind_speed [of arg0 arg1 wind_speed] parse_wind_speed [of arg0 arg1 wind_speed']
    using body_status_indep
    by (auto split: sum.splits)
  show ?thesis
    using single call body_status_indep by (simp add: spam_update_pollution_def)
qed

theorem wind_speed_is_not_validated_witness:
  "fst (update_pollution zeros unit_grid 0 1 0 1 0 5 1 2 (- 1) 0 0 10 0 10 1) =
   fst (update_pollution zeros unit_grid 0 1 0 1 0 5 1 2 1 0 0 10 0 10 1)
   \<and> fst (update_pollution_multiple_body zeros unit_grid (PyList []) (- 1) 0 1 ''D''
            0 10 0 10 1) =
     fst (update_pollution_multiple_body zeros unit_grid (PyList []) 1 0 1 ''D''
            0 10 0 10 1)
   \<and> fst (update_pollution_multiple zeros
            (Grid_arg unit_grid # List_arg (PyList []) # Float_arg (- 1) #
             [Float_arg 0, Float_arg 1, Str_arg ''D'', Float_arg 0, Float_arg 10,
              Float_arg 0, Long_arg 0]) 10 1) =
     fst (update_pollution_multiple zeros
            (Grid_arg unit_grid # List_arg (PyList []) # Float_arg 1 #
             [Float_arg 0, Float_arg 1, Str_arg ''D'', Float_arg 0, Float_arg 10,
              Float_arg 0, Long_arg 0]) 10 1)
   \<and> fst (spam_update_pollution zeros 0 1 0 1 0 5 1 2 (- 1) 0 0 10 0 10 1) = Py_None"
  by (rule wind_speed_is_not_validated)

text \<open>
  C4 as stated fails. With \<^verbatim>\<open>wind_speed = -1\<close> the single-source call on a grid of one
  cell returns \<^verbatim>\<open>None\<close> and has added a negative concentration to the cell; with
  \<^verbatim>\<open>wind_speed = 0\<close> the batch call \<^verbatim>\<open>update_pollution_multiple(grid, [], 0.0, 0.0, 1.0,
  "D", 0.0, 10.0, 0.0, 0)\<close> returns \<^verbatim>\<open>None\<close> and has decayed the cell, whatever \<open>y_max\<close>
  and \<open>grid_resolution\<close> hold.
\<close>

theorem nonpositive_wind_speed_accepted:
  "fst (update_pollution zeros unit_grid 0 1 0 1 0 5 1 2 (- 1) 0 0 10 0 10 1) = Py_None
   \<and> snd (update_pollution zeros unit_grid 0 1 0 1 0 5 1 2 (- 1) 0 0 10 0 10 1) 0 < 0
   \<and> (\<forall>y_max grid_resolution.
         fst (update_pollution_multiple ones (ten_arguments unit_grid [] 0) y_max
                grid_resolution) = Py_None
       \<and> snd (update_pollution_multiple ones (ten_arguments unit_grid [] 0) y_max
                grid_resolution) 0 = 0.99)"
proof -
  let ?a = "\<lparr>PyArray_TYPE = NPY_DOUBLE, PyArray_DIMS = [1, 1], PyArray_STRIDES = [8, 8]\<rparr>"
  obtain c where c: "cs_cell 0 5 1 2 (- 1) 0 0 10 0 10 1 0 0 = Some c" "c < 0"
    using cs_cell_neg [of 1 "- 1" 0 5 0 10 0 10 1 0 0 2 0]
    by (auto simp: example_distance)
  have ok: "fst (update_pollution zeros (PyArray ?a) 0 1 0 1 0 5 1 2 (- 1) 0 0 10 0 10 1) = Py_None"
    by (subst update_pollution_valid [where ?dims0.0 = 1 and ?dims1.0 = 1 and ?stride0.0 = 8 and ?stride1.0 = 8])
       simp_all
  have "snd (update_pollution zeros (PyArray ?a) 0 1 0 1 0 5 1 2 (- 1) 0 0 10 0 10 1)
          (0 * (8 div 8) + 0 * (8 div 8)) =
        zeros (0 * (8 div 8) + 0 * (8 div 8)) + (if (0::int) \<le> 0 \<and> (0::int) < 1 \<and> (0::int) \<le> 0 \<and> (0::int) < 1
             then cell_value (cs_cell 0 5 1 2 (- 1) 0 0 10 0 10 1 0 0) else 0)"
    by (rule update_pollution_cell [where ?dims0.0 = 1 and ?dims1.0 = 1]) simp_all
  then have neg: "snd (update_pollution zeros (PyArray ?a) 0 1 0 1 0 5 1 2 (- 1) 0 0 10 0 10 1) 0 < 0"
    using c by (simp add: cell_value_def)
  have batch: "update_pollution_multiple ones (ten_arguments (PyArray ?a) [] 0) y_max g =
      (Py_None, \<lambda>k. if 0 \<le> k \<and> k < 1 then ones k * 0.99 else ones k)" for y_max g
    unfolding ten_arguments_call
    by (subst empty_batch_body) (simp_all add: PyArray_NDIM_def PyArray_SIZE_def)
  show ?thesis
    using ok neg by (simp add: unit_grid_def unit_array_def batch)
qed

section \<open>The coefficients of the single-source updaters\<close>

text \<open>
  C5, as amended. Neither \<^verbatim>\<open>update_pollution\<close> has a stability class among its
  arguments. Both compute the coefficients with the fixed pair \<open>0.10\<close>, \<open>0.05\<close>, which is
  the pair of the final \<^verbatim>\<open>else\<close> of \<^verbatim>\<open>calculate_dispersion_coefficients\<close>. The body of
  the loop of \<^verbatim>\<open>cs_module.c\<close> is the body of the batch loop for a class that is none of
  \<open>A\<close> to \<open>F\<close>, operation for operation. The body of the loop of \<^verbatim>\<open>spam_module.c\<close> is
  its own formula, from the distance \<open>1\<close> on with no upper cutoff, on the pair of
  coefficients that \<^verbatim>\<open>calculate_dispersion_coefficients\<close> returns for such a class; it
  multiplies and divides in another order than the batch loop, and its increment is not
  stated to be the one of the batch loop.
\<close>

theorem single_source_coefficients_are_the_fallback:
  assumes "stability_class \<notin> {''A'', ''B'', ''C'', ''D'', ''E'', ''F''}"
  shows "cs_cell x y emission_rate plume_height wind_speed wind_direction
           x_min x_max y_min y_max grid_resolution i j =
         multiple_cell stability_class x y emission_rate plume_height wind_speed
           wind_direction x_min x_max y_min y_max grid_resolution i j
       \<and> spam_cell x y emission_rate plume_height wind_speed wind_direction
           x_min x_max y_min y_max grid_resolution i j =
         (let dx = receptor_dx x x_min x_max grid_resolution j;
              dy = receptor_dy y y_min y_max grid_resolution i;
              distance = cell_distance x y x_min x_max y_min y_max grid_resolution i j;
              (sigma_y, sigma_z) = calculate_dispersion_coefficients stability_class distance
          in if distance < 1 then None
             else Some ((emission_rate / (2 * M_PI * wind_speed * sigma_y * sigma_z))
                        * exp (- 0.5 * pow (angle_diff dy dx wind_direction / sigma_y) 2)
                        * (exp (- 0.5 * pow (plume_height / sigma_z) 2)
                           + exp (- 0.5 * pow (plume_height / sigma_z) 2))))"
proof -
  have m: "cs_cell x y emission_rate plume_height wind_speed wind_direction
           x_min x_max y_min y_max grid_resolution i j =
         multiple_cell stability_class x y emission_rate plume_height wind_speed
           wind_direction x_min x_max y_min y_max grid_resolution i j"
    using assms by (rule multiple_cell_fallback [symmetric])
  have coeff: "calculate_dispersion_coefficients stability_class d =
      (0.10 * d * pow (1 + 0.0001 * d) (- 0.5), 0.05 * d * pow (1 + 0.0001 * d) (- 0.5))"
    for d
    using assms by (simp add: calculate_dispersion_coefficients_def)
  show ?thesis
    unfolding spam_cell_unfold coeff Let_def prod.case
    using m by simp
qed

theorem single_source_coefficients_are_the_fallback_witness:
  "''X'' \<notin> {''A'', ''B'', ''C'', ''D'', ''E'', ''F''}
   \<and> cs_cell 0 5 1 2 1 0 0 10 0 10 1 0 0 = multiple_cell ''X'' 0 5 1 2 1 0 0 10 0 10 1 0 0
   \<and> spam_cell 0 5 1 2 1 0 0 10 0 10 1 0 0 =
       (let dx = receptor_dx 0 0 10 1 0;
            dy = receptor_dy 5 0 10 1 0;
            distance = cell_distance 0 5 0 10 0 10 1 0 0;
            (sigma_y, sigma_z) = calculate_dispersion_coefficients ''X'' distance
        in if distance < 1 then None
           else Some ((1 / (2 * M_PI * 1 * sigma_y * sigma_z))
                      * exp (- 0.5 * pow (angle_diff dy dx 0 / sigma_y) 2)
                      * (exp (- 0.5 * pow (2 / sigma_z) 2)
                         + exp (- 0.5 * pow (2 / sigma_z) 2))))"
proof -
  have unknown: "''X'' \<notin> {''A'', ''B'', ''C'', ''D'', ''E'', ''F''}"
    by simp
  show ?thesis
    using unknown single_source_coefficients_are_the_fallback [OF unknown, of 0 5 1 2 1 0 0 10 0 10 1 0 0]
    by (rule conjI)
qed

text \<open>
  C5 as stated fails: for a caller whose class is \<open>A\<close> the increment of the single-source
  updater at the example cell is not the one the table of classes gives for \<open>A\<close>.
\<close>

theorem single_source_ignores_stability_class:
  "cs_cell 0 5 1 0 1 0 0 10 0 10 1 0 0 \<noteq> multiple_cell ''A'' 0 5 1 0 1 0 0 10 0 10 1 0 0"
proof -
  let ?p = "(1 + 5 / 10000 :: real) powr (- (1 / 2))"
  have p: "0 < ?p" by simp
  have cs: "cs_cell 0 5 1 0 1 0 0 10 0 10 1 0 0 = Some (1 / (2 * pi) * 2 / ((1/2 * ?p) * (1/4 * ?p)))"
    by (simp add: cs_cell_unfold Let_def example_distance example_angle M_PI_def)
  have m: "multiple_cell ''A'' 0 5 1 0 1 0 0 10 0 10 1 0 0 =
      Some (1 / (2 * pi) * 2 / ((11/10 * ?p) * (1 * ?p)))"
    by (simp add: multiple_cell_unfold Let_def example_distance example_angle M_PI_def
        calculate_dispersion_coefficients_def)
  have "(1/2 * ?p) * (1/4 * ?p) \<noteq> (11/10 * ?p) * (1 * ?p)"
    using p by simp
  then have "1 / (2 * pi) * 2 / ((1/2 * ?p) * (1/4 * ?p)) \<noteq> 1 / (2 * pi) * 2 / ((11/10 * ?p) * (1 * ?p))"
    using p by (simp add: field_simps)
  then show ?thesis
    unfolding cs m by simp
qed

section \<open>The two single-source updaters on a contiguous grid\<close>

text \<open>
  The two modules take the product of the same factors in a different order. The two orders
  give the same real number; in double arithmetic every operation rounds, and the two
  results can differ in the last bits.
\<close>

lemma gaussian_forms:
  fixes E P w L V sy sz :: real
  shows "E / (2 * P * w) * L * (V * 2) / (sy * sz) = (E / (2 * P * w * sy * sz)) * L * (V + V)"
proof -
  have "V + V = V * 2" by simp
  then show ?thesis
    by (simp only: divide_inverse inverse_mult_distrib mult_ac)
qed




section \<open>A malformed vehicle in the batch\<close>












section \<open>The decay law\<close>

lemma vehicles_loop_keeps_address:
  assumes "vehicles_loop a wind_speed wind_direction emission_factor stability_class
             x_min x_max y_min y_max grid_resolution vehicles data err = (Py_None, data')"
    and "\<And>v d d'. v \<in> set vehicles \<Longrightarrow>
           vehicle_update a wind_speed wind_direction emission_factor stability_class
             x_min x_max y_min y_max grid_resolution v d = Some d' \<Longrightarrow> d' k = d k"
  shows "data' k = data k"
  using assms
proof (induction vehicles arbitrary: data err)
  case Nil
  then show ?case by (simp split: if_splits)
next
  case (Cons v vs)
  from Cons.prems(1) obtain d1 where
    step: "vehicle_update a wind_speed wind_direction emission_factor stability_class
             x_min x_max y_min y_max grid_resolution v data = Some d1"
    and rest: "vehicles_loop a wind_speed wind_direction emission_factor stability_class
             x_min x_max y_min y_max grid_resolution vs d1 (err \<or> vehicle_error v)
             = (Py_None, data')"
    by (auto split: if_splits option.splits)
  have "data' k = d1 k"
    using rest Cons.prems(2) by (intro Cons.IH) auto
  also have "d1 k = data k"
    using step by (rule Cons.prems(2) [rotated]) simp
  finally show ?case .
qed

lemma vehicle_update_outside_window:
  assumes "PyArray_DIMS a = [rows, cols]" and "PyArray_STRIDES a = [8 * cols, 8]"
    and "0 \<le> j" and "j < cols"
    and "\<not> in_window rows cols x_min x_max y_min y_max grid_resolution v i j"
    and "vehicle_update a wind_speed wind_direction emission_factor stability_class
           x_min x_max y_min y_max grid_resolution v d = Some d'"
  shows "d' (i * cols + j) = d (i * cols + j)"
proof -
  let ?x = "fst (PyFloat_AsDouble (PyTuple_GetItem v 0))"
  let ?y = "fst (PyFloat_AsDouble (PyTuple_GetItem v 1))"
  obtain i_min i_max j_min j_max where
    w: "window_i_min ?y y_min y_max grid_resolution = Some i_min"
       "window_i_max rows ?y y_min y_max grid_resolution = Some i_max"
       "window_j_min ?x x_min x_max grid_resolution = Some j_min"
       "window_j_max cols ?x x_min x_max grid_resolution = Some j_max"
    using vehicle_update_windows [OF assms(1) assms(6)] by blast
  have clamp: "0 \<le> j_min" "j_max \<le> cols"
    using window_clamped [OF w] by simp_all
  have out: "\<not> (i_min \<le> i \<and> i < i_max \<and> j_min \<le> j \<and> j < j_max)"
    using assms(5) w by (simp add: in_window_def Let_def)
  let ?cell = "multiple_cell stability_class ?x ?y
                 (calculate_emission_rate (fst (PyFloat_AsDouble (PyTuple_GetItem v 2)))
                    emission_factor)
                 (calculate_plume_rise (fst (PyFloat_AsDouble (PyTuple_GetItem v 2))))
                 wind_speed wind_direction x_min x_max y_min y_max grid_resolution"
  let ?addr = "\<lambda>i j. i * ((8 * cols) div 8) + j * (8 div 8)"
  have addr: "?addr i' j' = i' * cols + j'" for i' j'
    by simp
  have "d' = for_range i_min i_max (\<lambda>i. for_range j_min j_max (\<lambda>j.
               add_at (?addr i j) (?cell i j))) d"
    using vehicle_update_Some [OF assms(1,2) w, of wind_speed wind_direction emission_factor
        stability_class d] assms(6)
    by simp
  then have "d' (?addr i j) = d (?addr i j) +
      (\<Sum>i' = i_min..i_max - 1. \<Sum>j' = j_min..j_max - 1.
         if ?addr i' j' = ?addr i j then cell_value (?cell i' j') else 0)"
    by (simp only: window_sum)
  also have "(\<Sum>i' = i_min..i_max - 1. \<Sum>j' = j_min..j_max - 1.
         if ?addr i' j' = ?addr i j then cell_value (?cell i' j') else 0) =
       (if i_min \<le> i \<and> i < i_max \<and> j_min \<le> j \<and> j < j_max then cell_value (?cell i j) else 0)"
  proof (rule sum_single_cell)
    fix i' j'
    assume "j_min \<le> j'" "j' < j_max" "?addr i' j' = ?addr i j"
    then show "i' = i \<and> j' = j"
      using clamp assms(3,4) row_major_injective [of j' cols j i' i]
      by (simp add: addr)
  qed
  finally show ?thesis
    using out by (simp add: addr)
qed

lemma row_major_in_range:
  fixes rows cols :: int
  assumes "0 \<le> i" "i < rows" "0 \<le> j" "j < cols"
  shows "0 \<le> i * cols + j \<and> i * cols + j < rows * cols"
proof -
  have "i * cols \<le> (rows - 1) * cols"
    using assms by (intro mult_right_mono) auto
  then have "i * cols + j < rows * cols"
    using assms by (simp add: algebra_simps)
  moreover have "0 \<le> i * cols"
    using assms by simp
  ultimately show ?thesis
    using assms by simp
qed

lemma empty_batch:
  assumes "PyArg_ParseTuple args =
             Inr (PyArray a, PyList [], wind_speed, wind_direction, emission_factor,
                  stability_class, x_min, x_max, y_min, over_y_max)"
    and "PyArray_TYPE a = NPY_DOUBLE" and "PyArray_NDIM a = 2"
  shows "update_pollution_multiple data args y_max grid_resolution =
         (Py_None, \<lambda>k. if 0 \<le> k \<and> k < PyArray_SIZE a then data k * 0.99 else data k)"
  by (simp only: parsed_call [OF assms(1)] empty_batch_body [OF assms(2,3)])

text \<open>
  On a C-contiguous grid the decay law holds: after a successful call a cell of the grid
  that no vehicle's window contains holds \<open>0.99\<close> times its former value.
\<close>

lemma decay_law_contiguous:
  assumes "PyArg_ParseTuple args =
             Inr (PyArray a, PyList vehicles, wind_speed, wind_direction, emission_factor,
                  stability_class, x_min, x_max, y_min, over_y_max)"
    and "PyArray_TYPE a = NPY_DOUBLE"
    and "PyArray_DIMS a = [rows, cols]" and "PyArray_STRIDES a = [8 * cols, 8]"
    and "update_pollution_multiple data args y_max grid_resolution = (Py_None, data')"
    and "0 \<le> i" and "i < rows" and "0 \<le> j" and "j < cols"
    and "\<And>v. v \<in> set vehicles \<Longrightarrow>
           \<not> in_window rows cols x_min x_max y_min y_max grid_resolution v i j"
  shows "data' (i * cols + j) = data (i * cols + j) * 0.99"
proof -
  let ?decayed = "for_range 0 (PyArray_SIZE a) (\<lambda>i d. d(i := d i * 0.99)) data"
  have loop: "vehicles_loop a wind_speed wind_direction emission_factor stability_class
                x_min x_max y_min y_max grid_resolution vehicles ?decayed False
              = (Py_None, data')"
    using assms(2,3,5)
    by (simp add: parsed_call [OF assms(1)] update_pollution_multiple_body_def PyArray_NDIM_def)
  have "data' (i * cols + j) = ?decayed (i * cols + j)"
    using loop
  proof (rule vehicles_loop_keeps_address)
    fix v d d'
    assume "v \<in> set vehicles"
      and "vehicle_update a wind_speed wind_direction emission_factor stability_class
             x_min x_max y_min y_max grid_resolution v d = Some d'"
    then show "d' (i * cols + j) = d (i * cols + j)"
      using assms(10) by (intro vehicle_update_outside_window [OF assms(3,4,8,9)]) auto
  qed
  also have "\<dots> = data (i * cols + j) * 0.99"
    using row_major_in_range [OF assms(6-9)] assms(3)
    by (simp only: decay_loop PyArray_SIZE_def) simp
  finally show ?thesis .
qed

text \<open>
  C7. The claim: after a successful call every cell outside every window holds \<open>0.99\<close>
  times its former value, and with no vehicle every cell does. The decay pass multiplies
  \<^verbatim>\<open>data[0]\<close> to \<^verbatim>\<open>data[size - 1]\<close>, without the strides the loops over the vehicles
  use. In the call \<^verbatim>\<open>update_pollution_multiple(view, [], 1.0, 0.0, 1.0, "D", 0.0, 10.0,
  0.0, 0)\<close>, ten arguments as the format string takes, where \<^verbatim>\<open>view\<close> is every second
  column of a \<open>2 \<times> 4\<close> array of ones, whatever \<open>y_max\<close> and \<open>grid_resolution\<close> hold: the
  call returns \<^verbatim>\<open>None\<close>; the cell \<open>(1, 0)\<close> of the view, at offset 4, still holds \<open>1\<close>;
  the cell \<open>(0, 0)\<close> holds \<open>0.99\<close>; and offset 1, which is no cell of the view, has been
  decayed.
\<close>

theorem decay_misses_cells_of_a_strided_grid:
  "fst (update_pollution_multiple ones (ten_arguments strided_view [] 1) y_max
          grid_resolution) = Py_None
   \<and> snd (update_pollution_multiple ones (ten_arguments strided_view [] 1) y_max
            grid_resolution) (1 * (32 div 8) + 0 * (16 div 8)) = 1
   \<and> snd (update_pollution_multiple ones (ten_arguments strided_view [] 1) y_max
            grid_resolution) (0 * (32 div 8) + 0 * (16 div 8)) = 0.99
   \<and> snd (update_pollution_multiple ones (ten_arguments strided_view [] 1) y_max
            grid_resolution) 1 = 0.99"
proof -
  have "update_pollution_multiple ones (ten_arguments strided_view [] 1) y_max grid_resolution =
        (Py_None, \<lambda>k. if 0 \<le> k \<and> k < 4 then ones k * 0.99 else ones k)"
    unfolding strided_view_def ten_arguments_call
    by (subst empty_batch_body) (simp_all add: PyArray_NDIM_def PyArray_SIZE_def)
  then show ?thesis
    by simp
qed

theorem decay_misses_cells_of_a_strided_grid_witness:
  "fst (update_pollution_multiple ones (ten_arguments strided_view [] 1) 10 1) = Py_None
   \<and> snd (update_pollution_multiple ones (ten_arguments strided_view [] 1) 10 1) 4
     \<noteq> 1 * 0.99"
  using decay_misses_cells_of_a_strided_grid [of 10 1] by simp

section \<open>Positivity of an increment, in exact arithmetic\<close>

text \<open>
  With real numbers for doubles, a positive emission rate and a positive wind speed give a
  positive increment to every cell of the window whose centre is at a distance between 1 and
  300, upwind cells included: every factor of the concentration is a positive real. This is a
  fact of the real-number model only. In double precision \<^verbatim>\<open>exp\<close> underflows to \<open>0\<close> below
  about \<open>-745\<close>, and at distance 1 with a plume height of 2 the exponent of the vertical
  factor is about \<open>-800\<close>; no statement about the sign of the increment of the C program is
  made here.
\<close>

lemma update_pollution_adds_positive:
  assumes "PyArray_TYPE a = NPY_DOUBLE" and "PyArray_DIMS a = [dims0, dims1]"
    and "PyArray_STRIDES a = [stride0, stride1]"
    and "0 \<le> i_min" and "i_max \<le> dims0" and "0 \<le> j_min" and "j_max \<le> dims1"
    and inj: "\<And>i' j'. i_min \<le> i' \<Longrightarrow> i' < i_max \<Longrightarrow> j_min \<le> j' \<Longrightarrow> j' < j_max \<Longrightarrow>
             i' * (stride0 div 8) + j' * (stride1 div 8) = i * (stride0 div 8) + j * (stride1 div 8)
             \<Longrightarrow> i' = i \<and> j' = j"
    and "i_min \<le> i" and "i < i_max" and "j_min \<le> j" and "j < j_max"
    and "0 < emission_rate" and "0 < wind_speed"
    and "1 \<le> cell_distance x y x_min x_max y_min y_max grid_resolution i j"
    and "cell_distance x y x_min x_max y_min y_max grid_resolution i j \<le> 300"
  shows "data (i * (stride0 div 8) + j * (stride1 div 8)) <
         snd (update_pollution data (PyArray a) i_min i_max j_min j_max x y emission_rate
           plume_height wind_speed wind_direction x_min x_max y_min y_max grid_resolution)
           (i * (stride0 div 8) + j * (stride1 div 8))"
proof -
  obtain c where "cs_cell x y emission_rate plume_height wind_speed wind_direction
           x_min x_max y_min y_max grid_resolution i j = Some c" and "0 < c"
    using cs_cell_pos [OF assms(13-16)] by blast
  then show ?thesis
    using assms(9-12)
    by (simp only: update_pollution_cell [OF assms(1-7) inj] cell_value_def) simp
qed

end
